theory Spec2Isabelle
  imports Complex_Main
begin

text \<open>
  The MCP Apps tab of the inspector client: \<^verbatim>\<open>AppRenderer.tsx\<close> embeds the UI resource of
  a tool in a sandboxed iframe and connects it to the host through an \<^verbatim>\<open>AppBridge\<close>;
  \<^verbatim>\<open>AppsTab.tsx\<close> lists the tools that carry UI metadata and renders the \<^verbatim>\<open>AppRenderer\<close>
  of the selected one. The theory models content resolution as a function on parsed JSON
  values, the render as a function from props and state to what is shown, and the
  life of the component (mount, render with new props, unmount, the resumptions of the
  asynchronous \<^verbatim>\<open>setupApp\<close>, the bridge's handlers) as steps of a state machine that
  records the calls made on the collaborators.
\<close>

section \<open>JavaScript values produced by JSON.parse\<close>

text \<open>
  \<^verbatim>\<open>AppRenderer.tsx\<close> hands the resource payload to \<^verbatim>\<open>JSON.parse\<close> and then reads the
  result with property accesses, truthiness tests and \<^verbatim>\<open>Array.prototype.find\<close>.
  A parsed value is one of the six JSON kinds. An object carries its own properties as
  an association list (a parsed object holds each key once); a number carries its value,
  of which the component only observes whether it is zero.
\<close>

datatype json =
    JNull
  | JBool bool
  | JNum real
  | JStr string
  | JArr "json list"
  | JObj "(string \<times> json) list"

text \<open>
  What the code inside the inner \<^verbatim>\<open>try\<close> can throw: \<^verbatim>\<open>JSON.parse\<close> throws a
  SyntaxError on text that is not JSON, and reading a property of \<^verbatim>\<open>null\<close> throws a
  TypeError.
\<close>

datatype parse_exn = SyntaxError | TypeError

text \<open>
  \<^verbatim>\<open>v.k\<close> for one of the keys \<^verbatim>\<open>contents\<close>, \<^verbatim>\<open>type\<close>, \<^verbatim>\<open>text\<close>: a TypeError on
  \<^verbatim>\<open>null\<close>, the own property of an object, and \<^verbatim>\<open>undefined\<close> (here \<open>None\<close>) on an
  object without the key and on every boolean, number, string and array (none of their
  prototypes defines one of these keys).
\<close>

fun js_get :: "json \<Rightarrow> string \<Rightarrow> parse_exn + json option" where
  "js_get JNull k = Inl TypeError"
| "js_get (JObj kvs) k = Inr (map_of kvs k)"
| "js_get v k = Inr None"

text \<open>JavaScript truthiness of a value that may be \<^verbatim>\<open>undefined\<close>.\<close>

fun truthy :: "json option \<Rightarrow> bool" where
  "truthy None = False"
| "truthy (Some JNull) = False"
| "truthy (Some (JBool b)) = b"
| "truthy (Some (JNum n)) = (n \<noteq> 0)"
| "truthy (Some (JStr s)) = (s \<noteq> [])"
| "truthy (Some (JArr vs)) = True"
| "truthy (Some (JObj kvs)) = True"

fun isArray :: "json option \<Rightarrow> bool" where
  "isArray (Some (JArr vs)) = True"
| "isArray v = False"

text \<open>
  The callback of \<^verbatim>\<open>find\<close>:
  \<^verbatim>\<open>(c) => c.type === "text" && c.text\<close>.
  \<^verbatim>\<open>c.type\<close> is read first (and throws when \<^verbatim>\<open>c\<close> is \<^verbatim>\<open>null\<close>); \<^verbatim>\<open>c.text\<close> is read only
  when the strict comparison holds, and \<^verbatim>\<open>find\<close> takes the result by its truthiness.
\<close>

definition is_text_entry :: "json \<Rightarrow> parse_exn + bool" where
  "is_text_entry c =
     (case js_get c ''type'' of
        Inl e \<Rightarrow> Inl e
      | Inr ty \<Rightarrow>
          if ty = Some (JStr ''text'')
          then (case js_get c ''text'' of Inl e \<Rightarrow> Inl e | Inr tx \<Rightarrow> Inr (truthy tx))
          else Inr False)"

text \<open>
  \<^verbatim>\<open>Array.prototype.find\<close>: the first element on which the callback is truthy,
  \<^verbatim>\<open>undefined\<close> when there is none; an exception of the callback ends the search.
\<close>

fun js_find :: "(json \<Rightarrow> parse_exn + bool) \<Rightarrow> json list \<Rightarrow> parse_exn + json option" where
  "js_find p [] = Inr None"
| "js_find p (c # cs) =
     (case p c of
        Inl e \<Rightarrow> Inl e
      | Inr True \<Rightarrow> Inr (Some c)
      | Inr False \<Rightarrow> js_find p cs)"

section \<open>Content resolution (the inner try block of setupApp)\<close>

text \<open>
  \<^verbatim>\<open>
  let htmlContent = resourceContent;
  try {
    const parsed = JSON.parse(resourceContent);
    if (parsed.contents && Array.isArray(parsed.contents)) {
      const textContent = parsed.contents.find(
        (c) => c.type === "text" && c.text);
      if (textContent?.text) { htmlContent = textContent.text; }
    }
  } catch { /* Not JSON, use as-is */ }
  \<close>
  \<^verbatim>\<open>JSON.parse\<close> is a built-in of the language: it is the parameter \<open>parse\<close>, with \<open>None\<close>
  for a SyntaxError. \<open>htmlContent_try\<close> is the body of the \<^verbatim>\<open>try\<close>: \<open>Inr None\<close> when
  it ends without assigning \<^verbatim>\<open>htmlContent\<close>, \<open>Inr (Some v)\<close> when it assigns \<open>v\<close>.
  The value assigned is whatever the entry's \<^verbatim>\<open>text\<close> holds, so the result is a \<open>json\<close>
  value (a string for every entry of the declared type).
\<close>

definition textContent_text :: "json option \<Rightarrow> parse_exn + json option" where
  "textContent_text textContent =
     (case textContent of None \<Rightarrow> Inr None | Some c \<Rightarrow> js_get c ''text'')"

definition htmlContent_try :: "(string \<Rightarrow> json option) \<Rightarrow> string \<Rightarrow> parse_exn + json option" where
  "htmlContent_try parse resourceContent =
     (case parse resourceContent of
        None \<Rightarrow> Inl SyntaxError
      | Some parsed \<Rightarrow>
          (case js_get parsed ''contents'' of
             Inl e \<Rightarrow> Inl e
           | Inr contents \<Rightarrow>
               if truthy contents \<and> isArray contents
               then (case contents of
                       Some (JArr cs) \<Rightarrow>
                         (case js_find is_text_entry cs of
                            Inl e \<Rightarrow> Inl e
                          | Inr textContent \<Rightarrow>
                              (case textContent_text textContent of
                                 Inl e \<Rightarrow> Inl e
                               | Inr tx \<Rightarrow> if truthy tx then Inr tx else Inr None))
                     | _ \<Rightarrow> Inr None)
               else Inr None))"

definition htmlContent :: "(string \<Rightarrow> json option) \<Rightarrow> string \<Rightarrow> json" where
  "htmlContent parse resourceContent =
     (case htmlContent_try parse resourceContent of
        Inl e \<Rightarrow> JStr resourceContent
      | Inr None \<Rightarrow> JStr resourceContent
      | Inr (Some v) \<Rightarrow> v)"

section \<open>Tools, props and the external library\<close>

text \<open>
  A tool descriptor as the two components read it: \<^verbatim>\<open>tool.name\<close>,
  \<^verbatim>\<open>tool._meta?.ui?.resourceUri\<close> and \<^verbatim>\<open>tool._meta?.ui?.permissions\<close> (\<open>None\<close> is
  \<^verbatim>\<open>undefined\<close>, wherever the optional chain stops).
\<close>

type_synonym permissions = "(string \<times> json) list"

record Tool =
  name :: string
  ui_resourceUri :: "string option"
  ui_permissions :: "permissions option"

text \<open>
  \<^verbatim>\<open>getToolUiResourceUri\<close> and \<^verbatim>\<open>buildAllowAttribute\<close> are imported from the package
  \<^verbatim>\<open>@modelcontextprotocol/ext-apps/app-bridge\<close>; they are parameters of the model.
\<close>

record ext_apps =
  getToolUiResourceUri :: "Tool \<Rightarrow> string option"
  buildAllowAttribute :: "permissions option \<Rightarrow> string"

text \<open>
  The props of \<^verbatim>\<open>AppRenderer\<close>. The client object and the \<^verbatim>\<open>onReadResource\<close> callback
  enter the dependency arrays by identity, so each is carried as a number naming the
  object.
\<close>

type_synonym client = nat

record props =
  tool :: Tool
  mcpClient :: "client option"
  onReadResource :: nat
  resourceContent :: string

text \<open>Truthiness of a string that may be \<^verbatim>\<open>undefined\<close> or \<^verbatim>\<open>null\<close>.\<close>

definition truthy_str :: "string option \<Rightarrow> bool" where
  "truthy_str x = (case x of None \<Rightarrow> False | Some u \<Rightarrow> u \<noteq> [])"

section \<open>The AppRenderer component\<close>

text \<open>
  One mounted instance of the component: the three \<^verbatim>\<open>useState\<close> cells, the two refs,
  and what React keeps for the two effects (the dependency values of their last run and
  the cleanup function the setup effect returned). \<open>setup_cleanup = None\<close>: the effect
  returned no cleanup (its early \<^verbatim>\<open>return;\<close>, or it has not run since the last cleanup);
  \<open>Some bo\<close>: it returned the cleanup closure, whose variable \<^verbatim>\<open>bridge\<close> holds \<open>bo\<close>
  (\<^verbatim>\<open>null\<close> when the constructor threw). \<open>iframeRef\<close> tells whether \<^verbatim>\<open>iframeRef.current\<close>
  is an element.
\<close>

type_synonym bridge = nat

record renderer =
  inst_id :: nat
  loading :: bool
  error :: "string option"
  initialized :: bool
  bridgeRef :: "bridge option"
  iframeRef :: bool
  fetch_deps :: "string option \<times> nat"
  setup_deps :: "string \<times> client option"
  setup_cleanup :: "bridge option option"

subsection \<open>What the component renders\<close>

record iframe_view =
  sandbox :: string
  allow :: string
  display :: string
  title :: string

text \<open>
  \<open>no_resource_alert\<close>: the destructive alert "No UI resource URI found in tool
  metadata"; \<open>loading_alert\<close>: the alert "Loading MCP App..."; \<open>error_alert\<close>: the
  destructive alert showing \<^verbatim>\<open>{error}\<close>; \<open>connected_note\<close>: the footer "App connected",
  followed by the tool name it holds.
\<close>

record view =
  no_resource_alert :: bool
  loading_alert :: bool
  error_alert :: "string option"
  iframe :: "iframe_view option"
  connected_note :: "string option"

definition render :: "ext_apps \<Rightarrow> props \<Rightarrow> renderer \<Rightarrow> view" where
  "render L p c =
     (let resourceUri = getToolUiResourceUri L (tool p);
          permissions = ui_permissions (tool p);
          allowAttribute = buildAllowAttribute L permissions
      in if \<not> truthy_str resourceUri
         then \<lparr>no_resource_alert = True, loading_alert = False, error_alert = None,
               iframe = None, connected_note = None\<rparr>
         else \<lparr>no_resource_alert = False,
               loading_alert = loading c,
               error_alert = (if truthy_str (error c) then error c else None),
               iframe = Some \<lparr>sandbox = ''allow-scripts allow-same-origin'',
                              allow = allowAttribute,
                              display = (if loading c then ''none'' else ''block''),
                              title = ''MCP App: '' @ name (tool p)\<rparr>,
               connected_note = (if initialized c then Some (name (tool p)) else None)\<rparr>)"

subsection \<open>The environment of one run of setupApp\<close>

text \<open>
  A thrown value: an \<^verbatim>\<open>Error\<close> with its message, or any other value
  (\<^verbatim>\<open>err instanceof Error\<close> is false).
\<close>

datatype thrown = Error string | NonError

text \<open>
  What the browser and the bridge library decide during the synchronous part of
  \<^verbatim>\<open>setupApp\<close> and during the cleanup: \<^verbatim>\<open>JSON.parse\<close>; whether the page is in dark mode;
  whether \<^verbatim>\<open>new AppBridge(...)\<close> throws; whether
  \<^verbatim>\<open>iframe.contentDocument || iframe.contentWindow?.document\<close> is an object; whether
  \<^verbatim>\<open>iframeDoc.open(); iframeDoc.write(htmlContent); iframeDoc.close()\<close> throws; and
  whether the promise of \<^verbatim>\<open>bridge.close()\<close> rejects.
\<close>

record host_env =
  JSON_parse :: "string \<Rightarrow> json option"
  dark :: bool
  new_AppBridge :: "thrown option"
  iframeDoc :: bool
  doc_write :: "thrown option"
  close_rejects :: "thrown option"

text \<open>
  A session is one call of \<^verbatim>\<open>setupApp\<close> that constructed its bridge, named by the
  bridge. \<open>owner\<close> is the component instance whose state setters and refs the closure
  holds. The phase says where the \<^verbatim>\<open>async\<close> function stands: suspended at the load
  promise, suspended at \<^verbatim>\<open>await bridge.connect(transport)\<close>, past it, or ended in its
  \<^verbatim>\<open>catch\<close>.
\<close>

datatype phase = AwaitLoad | AwaitConnect | Connected | Failed

record session =
  owner :: nat
  phase :: phase

text \<open>
  The calls the component makes on its collaborators, in the order it makes them. The
  values it hands to \<^verbatim>\<open>console.error\<close> are kept apart, in \<open>console\<close>.
\<close>

datatype action =
    ReadResource string
  | NewBridge bridge client bool
  | DocWrite bridge json
  | NewTransport bridge
  | Connect bridge
  | Close bridge

record system =
  mounted :: "renderer option"
  sessions :: "bridge \<Rightarrow> session option"
  next_bridge :: bridge
  next_inst :: nat
  trace :: "action list"
  console :: "thrown list"

definition init :: system where
  "init = \<lparr>mounted = None, sessions = (\<lambda>b. None), next_bridge = 0, next_inst = 0,
            trace = [], console = []\<rparr>"

text \<open>
  A state setter or a ref write made by a closure of instance \<open>i\<close>: React drops it when
  that instance is no longer mounted.
\<close>

definition set_state :: "nat \<Rightarrow> (renderer \<Rightarrow> renderer) \<Rightarrow> system \<Rightarrow> system" where
  "set_state i f s =
     (case mounted s of
        None \<Rightarrow> s
      | Some c \<Rightarrow> if inst_id c = i then s\<lparr>mounted := Some (f c)\<rparr> else s)"

definition set_phase :: "bridge \<Rightarrow> nat \<Rightarrow> phase \<Rightarrow> system \<Rightarrow> system" where
  "set_phase b i ph s = s\<lparr>sessions := (sessions s)(b \<mapsto> \<lparr>owner = i, phase = ph\<rparr>)\<rparr>"

definition emit :: "action list \<Rightarrow> system \<Rightarrow> system" where
  "emit as s = s\<lparr>trace := trace s @ as\<rparr>"

subsection \<open>setupApp\<close>

text \<open>
  The \<^verbatim>\<open>catch\<close> of \<^verbatim>\<open>setupApp\<close>:
  \<^verbatim>\<open>console.error("Error setting up MCP App:", err);
  setError(err instanceof Error ? err.message : "Failed to set up app"); setLoading(false);\<close>
\<close>

definition catch_setup :: "nat \<Rightarrow> thrown \<Rightarrow> system \<Rightarrow> system" where
  "catch_setup i err s =
     set_state i
       (\<lambda>c. c\<lparr>error := Some (case err of Error m \<Rightarrow> m | NonError \<Rightarrow> ''Failed to set up app''),
              loading := False\<rparr>)
       (s\<lparr>console := console s @ [err]\<rparr>)"

text \<open>
  \<^verbatim>\<open>setupApp\<close> up to its first \<^verbatim>\<open>await\<close>, called by instance \<open>i\<close> with the client and the
  resource content of the effect's props. It returns the value of the effect's variable
  \<^verbatim>\<open>bridge\<close> (assigned by the first statement, before anything can suspend) with the new
  state: the constructor, the two handlers, the document access check, content
  resolution, the document write, and the load promise.
\<close>

definition setupApp :: "host_env \<Rightarrow> nat \<Rightarrow> client \<Rightarrow> string \<Rightarrow> system \<Rightarrow> bridge option \<times> system" where
  "setupApp env i cl content s =
     (case new_AppBridge env of
        Some err \<Rightarrow> (None, catch_setup i err s)
      | None \<Rightarrow>
          let b = next_bridge s;
              s1 = emit [NewBridge b cl (dark env)] (s\<lparr>next_bridge := Suc b\<rparr>)
          in if \<not> iframeDoc env
             then (Some b, catch_setup i (Error ''Could not access iframe document'')
                             (set_phase b i Failed s1))
             else let html = htmlContent (JSON_parse env) content
                  in (case doc_write env of
                        Some err \<Rightarrow> (Some b, catch_setup i err (set_phase b i Failed s1))
                      | None \<Rightarrow> (Some b, set_phase b i AwaitLoad (emit [DocWrite b html] s1))))"

text \<open>
  \<^verbatim>\<open>setupApp\<close> resumed after the load promise: \<open>contentWindow\<close> tells whether
  \<^verbatim>\<open>iframe.contentWindow\<close> is an object then. It throws without one; with one it builds
  the transport and calls \<^verbatim>\<open>bridge.connect(transport)\<close>.
\<close>

definition setupApp_loaded :: "bridge \<Rightarrow> bool \<Rightarrow> system \<Rightarrow> system" where
  "setupApp_loaded b contentWindow s =
     (case sessions s b of
        None \<Rightarrow> s
      | Some ss \<Rightarrow>
          if phase ss \<noteq> AwaitLoad then s
          else if \<not> contentWindow
          then catch_setup (owner ss) (Error ''Iframe contentWindow not available'')
                 (set_phase b (owner ss) Failed s)
          else set_phase b (owner ss) AwaitConnect (emit [NewTransport b, Connect b] s))"

text \<open>
  \<^verbatim>\<open>setupApp\<close> resumed after \<^verbatim>\<open>await bridge.connect(transport)\<close>: the promise resolved
  (\<open>None\<close>, then \<^verbatim>\<open>bridgeRef.current = bridge\<close>) or rejected with a thrown value.
\<close>

definition setupApp_connected :: "bridge \<Rightarrow> thrown option \<Rightarrow> system \<Rightarrow> system" where
  "setupApp_connected b r s =
     (case sessions s b of
        None \<Rightarrow> s
      | Some ss \<Rightarrow>
          if phase ss \<noteq> AwaitConnect then s
          else (case r of
                  None \<Rightarrow> set_state (owner ss) (\<lambda>c. c\<lparr>bridgeRef := Some b\<rparr>)
                            (set_phase b (owner ss) Connected s)
                | Some err \<Rightarrow> catch_setup (owner ss) err (set_phase b (owner ss) Failed s)))"

subsection \<open>The two handlers registered on the bridge\<close>

text \<open>
  \<^verbatim>\<open>bridge.oninitialized = () => { console.log("MCP App initialized");
  setInitialized(true); setLoading(false); }\<close> and
  \<^verbatim>\<open>bridge.onerror = (error) => { console.error("MCP App error:", error);
  setError(error.message || "An error occurred"); }\<close>
  Both are assigned right after the constructor returns and run unconditionally whenever
  the bridge calls them; their state setters are those of the instance that ran
  \<^verbatim>\<open>setupApp\<close>, the owner of the bridge's session. When the bridge calls them is the
  library's affair: an execution may call them on any bridge that has been constructed.
\<close>

definition oninitialized :: "bridge \<Rightarrow> system \<Rightarrow> system" where
  "oninitialized b s =
     (case sessions s b of
        None \<Rightarrow> s
      | Some ss \<Rightarrow> set_state (owner ss) (\<lambda>c. c\<lparr>initialized := True, loading := False\<rparr>) s)"

definition onerror :: "bridge \<Rightarrow> string \<Rightarrow> system \<Rightarrow> system" where
  "onerror b message s =
     (case sessions s b of
        None \<Rightarrow> s
      | Some ss \<Rightarrow>
          set_state (owner ss)
            (\<lambda>c. c\<lparr>error := Some (if message = [] then ''An error occurred'' else message)\<rparr>)
            (s\<lparr>console := console s @ [Error message]\<rparr>))"

subsection \<open>The two effects\<close>

text \<open>
  The resource-fetch effect, dependencies \<^verbatim>\<open>[resourceUri, onReadResource]\<close>:
  \<^verbatim>\<open>if (resourceUri) { setLoading(true); setError(null); onReadResource(resourceUri); }\<close>
\<close>

definition fetch_effect :: "ext_apps \<Rightarrow> props \<Rightarrow> system \<Rightarrow> system" where
  "fetch_effect L p s =
     (case mounted s of
        None \<Rightarrow> s
      | Some c \<Rightarrow>
          (case getToolUiResourceUri L (tool p) of
             None \<Rightarrow> s
           | Some uri \<Rightarrow>
               if uri = [] then s
               else emit [ReadResource uri]
                      (set_state (inst_id c) (\<lambda>c. c\<lparr>loading := True, error := None\<rparr>) s)))"

text \<open>
  The setup effect, dependencies \<^verbatim>\<open>[resourceContent, mcpClient]\<close>: the guard
  \<^verbatim>\<open>if (!resourceContent || !iframeRef.current || !mcpClient) return;\<close>, then the call of
  \<^verbatim>\<open>setupApp\<close>, then the cleanup closure is returned to React.
\<close>

definition setup_effect :: "host_env \<Rightarrow> props \<Rightarrow> system \<Rightarrow> system" where
  "setup_effect env p s =
     (case mounted s of
        None \<Rightarrow> s
      | Some c \<Rightarrow>
          (case mcpClient p of
             None \<Rightarrow> s
           | Some cl \<Rightarrow>
               if resourceContent p = [] \<or> \<not> iframeRef c then s
               else (case setupApp env (inst_id c) cl (resourceContent p) s of
                       (bo, s') \<Rightarrow> set_state (inst_id c) (\<lambda>c. c\<lparr>setup_cleanup := Some bo\<rparr>) s')))"

text \<open>
  The cleanup of the setup effect, run by React before the effect runs again and at
  unmount, when the last run returned one:
  \<^verbatim>\<open>if (bridge) { bridge.close().catch(console.error); }
  bridgeRef.current = null; setInitialized(false);\<close>
  A rejection of \<^verbatim>\<open>close()\<close> goes to the console.
\<close>

definition setup_cleanup_run :: "host_env \<Rightarrow> system \<Rightarrow> system" where
  "setup_cleanup_run env s =
     (case mounted s of
        None \<Rightarrow> s
      | Some c \<Rightarrow>
          (case setup_cleanup c of
             None \<Rightarrow> s
           | Some bo \<Rightarrow>
               let s1 = (case bo of
                           None \<Rightarrow> s
                         | Some b \<Rightarrow>
                             (emit [Close b] s)
                               \<lparr>console := console s @ (case close_rejects env of
                                                          None \<Rightarrow> []
                                                        | Some err \<Rightarrow> [err])\<rparr>)
               in set_state (inst_id c)
                    (\<lambda>c. c\<lparr>bridgeRef := None, initialized := False, setup_cleanup := None\<rparr>) s1))"

subsection \<open>Commits\<close>

text \<open>
  Mounting renders with the initial state (\<^verbatim>\<open>loading\<close> true, no error, not initialized),
  attaches the iframe ref when the render contains the iframe (it does exactly when
  \<^verbatim>\<open>resourceUri\<close> is truthy), and runs both effects in their order.
\<close>

definition mount :: "ext_apps \<Rightarrow> host_env \<Rightarrow> props \<Rightarrow> system \<Rightarrow> system" where
  "mount L env p s =
     (case mounted s of
        Some c \<Rightarrow> s
      | None \<Rightarrow>
          let resourceUri = getToolUiResourceUri L (tool p);
              c = \<lparr>inst_id = next_inst s, loading = True, error = None, initialized = False,
                   bridgeRef = None, iframeRef = truthy_str resourceUri,
                   fetch_deps = (resourceUri, onReadResource p),
                   setup_deps = (resourceContent p, mcpClient p),
                   setup_cleanup = None\<rparr>
          in setup_effect env p
               (fetch_effect L p (s\<lparr>mounted := Some c, next_inst := Suc (next_inst s)\<rparr>)))"

text \<open>
  A render with new props on the mounted instance: React updates the iframe ref, runs
  the cleanup of the setup effect when its dependencies changed, then the bodies of the
  effects whose dependencies changed, fetch effect first.
\<close>

definition update :: "ext_apps \<Rightarrow> host_env \<Rightarrow> props \<Rightarrow> system \<Rightarrow> system" where
  "update L env p s =
     (case mounted s of
        None \<Rightarrow> s
      | Some c \<Rightarrow>
          let resourceUri = getToolUiResourceUri L (tool p);
              fd = (resourceUri, onReadResource p);
              sd = (resourceContent p, mcpClient p);
              fetch_changed = (fd \<noteq> fetch_deps c);
              setup_changed = (sd \<noteq> setup_deps c);
              s1 = s\<lparr>mounted := Some (c\<lparr>iframeRef := truthy_str resourceUri,
                                        fetch_deps := fd, setup_deps := sd\<rparr>)\<rparr>;
              s2 = (if setup_changed then setup_cleanup_run env s1 else s1);
              s3 = (if fetch_changed then fetch_effect L p s2 else s2)
          in if setup_changed then setup_effect env p s3 else s3)"

definition unmount :: "host_env \<Rightarrow> system \<Rightarrow> system" where
  "unmount env s = (setup_cleanup_run env s)\<lparr>mounted := None\<rparr>"

subsection \<open>Executions\<close>

text \<open>
  Everything that can happen to the component: React mounts it, renders it with new
  props or unmounts it; a suspended \<^verbatim>\<open>setupApp\<close> resumes; the bridge calls a handler.
  The environment's choices travel with the event.
\<close>

datatype event =
    Mount props host_env
  | Update props host_env
  | Unmount host_env
  | Loaded bridge bool
  | ConnectSettled bridge "thrown option"
  | Initialized bridge
  | GuestError bridge string

fun step :: "ext_apps \<Rightarrow> event \<Rightarrow> system \<Rightarrow> system" where
  "step L (Mount p env) s = mount L env p s"
| "step L (Update p env) s = update L env p s"
| "step L (Unmount env) s = unmount env s"
| "step L (Loaded b cw) s = setupApp_loaded b cw s"
| "step L (ConnectSettled b r) s = setupApp_connected b r s"
| "step L (Initialized b) s = oninitialized b s"
| "step L (GuestError b m) s = onerror b m s"

definition run :: "ext_apps \<Rightarrow> system \<Rightarrow> event list \<Rightarrow> system" where
  "run L s es = foldl (\<lambda>s e. step L e s) s es"

section \<open>The AppsTab component\<close>

record appsTab =
  appTools :: "Tool list"
  selectedTool :: "Tool option"

definition hasUIMetadata :: "Tool \<Rightarrow> bool" where
  "hasUIMetadata t = truthy_str (ui_resourceUri t)"

text \<open>
  The effect with dependencies \<^verbatim>\<open>[tools, selectedTool]\<close>:
  \<^verbatim>\<open>
  const filtered = tools.filter(hasUIMetadata);
  setAppTools(filtered);
  if (selectedTool && !filtered.find((t) => t.name === selectedTool.name)) {
    setSelectedTool(null);
  }
  \<close>
\<close>

definition appsTab_effect :: "Tool list \<Rightarrow> appsTab \<Rightarrow> appsTab" where
  "appsTab_effect tools st =
     (let filtered = filter hasUIMetadata tools;
          st1 = st\<lparr>appTools := filtered\<rparr>
      in case selectedTool st of
           None \<Rightarrow> st1
         | Some sel \<Rightarrow>
             if find (\<lambda>t. name t = name sel) filtered = None
             then st1\<lparr>selectedTool := None\<rparr>
             else st1)"

text \<open>
  The click on a tool card, \<^verbatim>\<open>onClick={() => setSelectedTool(tool)}\<close>, and the close
  button, \<^verbatim>\<open>handleCloseApp\<close>.
\<close>

definition selectTool :: "Tool \<Rightarrow> appsTab \<Rightarrow> appsTab" where
  "selectTool t st = st\<lparr>selectedTool := Some t\<rparr>"

definition handleCloseApp :: "appsTab \<Rightarrow> appsTab" where
  "handleCloseApp st = st\<lparr>selectedTool := None\<rparr>"

text \<open>
  The \<^verbatim>\<open>AppRenderer\<close> element of the render, present exactly when a tool is selected:
  its \<^verbatim>\<open>resourceContent\<close> is
  \<^verbatim>\<open>resourceContentMap[selectedTool._meta?.ui?.resourceUri || ""] || ""\<close>.
\<close>

definition appsTab_renderer :: "(string \<rightharpoonup> string) \<Rightarrow> client option \<Rightarrow> nat \<Rightarrow> appsTab \<Rightarrow> props option" where
  "appsTab_renderer resourceContentMap cl rd st =
     (case selectedTool st of
        None \<Rightarrow> None
      | Some sel \<Rightarrow>
          Some \<lparr>tool = sel, mcpClient = cl, onReadResource = rd,
                resourceContent =
                  (case resourceContentMap (case ui_resourceUri sel of None \<Rightarrow> [] | Some u \<Rightarrow> u) of
                     None \<Rightarrow> []
                   | Some content \<Rightarrow> content)\<rparr>)"


section \<open>Notions the properties are stated with\<close>

text \<open>
  Ready: the mounted instance's \<^verbatim>\<open>initialized\<close> flag is true.
\<close>

definition is_ready :: "system \<Rightarrow> bool" where
  "is_ready s = (case mounted s of None \<Rightarrow> False | Some c \<Rightarrow> initialized c)"

text \<open>
  The bridge held by the cleanup closure that React keeps for the mounted instance: the
  bridge of the session that has been set up and not yet torn down.
\<close>

definition live_bridge :: "system \<Rightarrow> bridge option" where
  "live_bridge s =
     (case mounted s of
        None \<Rightarrow> None
      | Some c \<Rightarrow> (case setup_cleanup c of Some (Some b) \<Rightarrow> Some b | _ \<Rightarrow> None))"

text \<open>The bridges constructed in a trace, and how often \<^verbatim>\<open>close()\<close> was called on one.\<close>

fun new_bridges :: "action list \<Rightarrow> bridge list" where
  "new_bridges [] = []"
| "new_bridges (NewBridge b cl th # tr) = b # new_bridges tr"
| "new_bridges (a # tr) = new_bridges tr"

definition closes :: "bridge \<Rightarrow> action list \<Rightarrow> nat" where
  "closes b tr = count_list tr (Close b)"

text \<open>
  An event that renders with a tool for which \<^verbatim>\<open>getToolUiResourceUri\<close> yields nothing
  truthy, or that renders nothing.
\<close>

fun without_resourceUri :: "ext_apps \<Rightarrow> event \<Rightarrow> bool" where
  "without_resourceUri L (Mount p env) = (\<not> truthy_str (getToolUiResourceUri L (tool p)))"
| "without_resourceUri L (Update p env) = (\<not> truthy_str (getToolUiResourceUri L (tool p)))"
| "without_resourceUri L e = True"

text \<open>
  The order in which a trace constructs and closes bridges, read with the bridge that is
  open at its start: \<open>None\<close> when the trace constructs a bridge while another is open,
  or closes a bridge other than the open one; otherwise the bridge open at its end.
\<close>

fun discipline :: "bridge option \<Rightarrow> action list \<Rightarrow> bridge option option" where
  "discipline ob [] = Some ob"
| "discipline ob (NewBridge b cl th # tr) = (if ob = None then discipline (Some b) tr else None)"
| "discipline ob (Close b # tr) = (if ob = Some b then discipline None tr else None)"
| "discipline ob (a # tr) = discipline ob tr"

text \<open>
  How one operation extends an execution: the actions it appends keep the discipline,
  leading from the bridge that was live to the one that is live afterwards, and they
  construct no bridge, or exactly the next one.
\<close>

definition extends :: "system \<Rightarrow> system \<Rightarrow> bool" where
  "extends s s' =
     (\<exists>as. trace s' = trace s @ as
          \<and> discipline (live_bridge s) as = Some (live_bridge s')
          \<and> ((new_bridges as = [] \<and> next_bridge s' = next_bridge s)
               \<or> (new_bridges as = [next_bridge s] \<and> next_bridge s' = Suc (next_bridge s))))"

definition extends_calmly :: "system \<Rightarrow> system \<Rightarrow> bool" where
  "extends_calmly s s' =
     (\<exists>as. trace s' = trace s @ as
          \<and> discipline (live_bridge s) as = Some (live_bridge s')
          \<and> new_bridges as = [] \<and> next_bridge s' = next_bridge s)"

definition bridge_inv :: "system \<Rightarrow> bool" where
  "bridge_inv s =
     (discipline None (trace s) = Some (live_bridge s)
      \<and> distinct (new_bridges (trace s))
      \<and> (\<forall>b\<in>set (new_bridges (trace s)). b < next_bridge s))"




section \<open>Concrete inputs\<close>

text \<open>
  Resource payloads used as concrete inputs, and the value \<^verbatim>\<open>JSON.parse\<close> returns on each
  of them (\<open>None\<close>: it throws). \<open>sample_parse\<close> is that table; theorems that hold for
  every \<open>parse\<close> do not depend on it.
\<close>

definition payload_plain :: string where
  \<open>payload_plain = ''<html>...</html>''\<close>

definition payload_envelope :: string where
  \<open>payload_envelope = ''{"contents":[{"type":"text","text":"<html>...</html>"}]}''\<close>

definition payload_empty_first :: string where
  \<open>payload_empty_first =
     ''{"contents":[{"type":"text","text":""},{"type":"text","text":"<p>hi</p>"}]}''\<close>

definition payload_empty_only :: string where
  \<open>payload_empty_only = ''{"contents":[{"type":"text","text":""},{"type":"text"}]}''\<close>

definition payload_blob :: string where
  \<open>payload_blob = ''{"contents":[{"type":"blob","blob":"AAAA"}]}''\<close>

definition payload_inner :: string where
  \<open>payload_inner = ''{"contents":[{"type":"text","text":"<p>hi</p>"}]}''\<close>

text \<open>
  An envelope whose text entry is itself the envelope \<open>payload_inner\<close>, written as a JSON
  string: every double quote of the inner text is preceded by a backslash.
\<close>

definition payload_nested :: string where
  \<open>payload_nested =
     ''{"contents":[{"type":"text","text":"''
     @ concat (map (\<lambda>c. if c = CHR 0x22 then [CHR 0x5C, c] else [c]) payload_inner)
     @ ''"}]}''\<close>

definition text_entry :: "string \<Rightarrow> json" where
  "text_entry s = JObj [(''type'', JStr ''text''), (''text'', JStr s)]"

definition envelope :: "json list \<Rightarrow> json" where
  "envelope cs = JObj [(''contents'', JArr cs)]"

definition sample_parse :: "string \<Rightarrow> json option" where
  "sample_parse =
     map_of
       [(payload_envelope, envelope [text_entry ''<html>...</html>'']),
        (payload_empty_first, envelope [text_entry [], text_entry ''<p>hi</p>'']),
        (payload_empty_only, envelope [text_entry [], JObj [(''type'', JStr ''text'')]]),
        (payload_blob, envelope [JObj [(''type'', JStr ''blob''), (''blob'', JStr ''AAAA'')]]),
        (payload_inner, envelope [text_entry ''<p>hi</p>'']),
        (payload_nested, envelope [text_entry payload_inner])]"


text \<open>
  A library, two tools that declare the same UI resource, a tool without one, an
  environment in which every step of the setup succeeds, and the props \<^verbatim>\<open>AppsTab\<close> passes
  for a selected tool when the resource \<^verbatim>\<open>ui://tool/widget\<close> has been read.
\<close>

definition sample_lib :: ext_apps where
  "sample_lib = \<lparr>getToolUiResourceUri = ui_resourceUri, buildAllowAttribute = (\<lambda>permissions. [])\<rparr>"

definition tool_widget :: Tool where
  "tool_widget = \<lparr>name = ''show_widget'', ui_resourceUri = Some ''ui://tool/widget'',
                   ui_permissions = None\<rparr>"

definition tool_widget2 :: Tool where
  "tool_widget2 = \<lparr>name = ''refresh_widget'', ui_resourceUri = Some ''ui://tool/widget'',
                    ui_permissions = None\<rparr>"

definition tool_plain :: Tool where
  "tool_plain = \<lparr>name = ''echo'', ui_resourceUri = None, ui_permissions = None\<rparr>"

definition sample_env :: host_env where
  "sample_env = \<lparr>JSON_parse = sample_parse, dark = False, new_AppBridge = None,
                  iframeDoc = True, doc_write = None, close_rejects = None\<rparr>"

definition sample_content :: "string \<rightharpoonup> string" where
  "sample_content = [''ui://tool/widget'' \<mapsto> payload_envelope]"

definition sample_props :: "Tool \<Rightarrow> props" where
  "sample_props t =
     \<lparr>tool = t, mcpClient = Some 0, onReadResource = 0,
      resourceContent =
        (case sample_content (case ui_resourceUri t of None \<Rightarrow> [] | Some u \<Rightarrow> u) of
           None \<Rightarrow> []
         | Some content \<Rightarrow> content)\<rparr>"

text \<open>
  The same environment with a \<^verbatim>\<open>close()\<close> that rejects, the props after the resource has
  been read again with plain markup as its content, and the execution that brings the
  widget tool to Ready: mount, load, connect, handshake.
\<close>

definition rejecting_env :: host_env where
  "rejecting_env = sample_env\<lparr>close_rejects := Some (Error ''Connection closed'')\<rparr>"

definition props_reloaded :: props where
  "props_reloaded = (sample_props tool_widget)\<lparr>resourceContent := payload_plain\<rparr>"

definition until_ready :: "event list" where
  "until_ready =
     [Mount (sample_props tool_widget) sample_env, Loaded 0 True, ConnectSettled 0 None,
      Initialized 0]"

text \<open>
  The states of that execution: one instance, one session, with the instance's cells at
  Ready and the trace up to the connect.
\<close>

definition ready_renderer :: renderer where
  "ready_renderer =
     \<lparr>inst_id = 0, loading = False, error = None, initialized = True,
      bridgeRef = Some 0, iframeRef = True,
      fetch_deps = (Some ''ui://tool/widget'', 0),
      setup_deps = (payload_envelope, Some 0),
      setup_cleanup = Some (Some 0)\<rparr>"

definition ready_trace :: "action list" where
  "ready_trace =
     [ReadResource ''ui://tool/widget'', NewBridge 0 0 False,
      DocWrite 0 (JStr ''<html>...</html>''), NewTransport 0, Connect 0]"

definition widget_system :: "renderer option \<Rightarrow> phase \<Rightarrow> action list \<Rightarrow> thrown list \<Rightarrow> system" where
  "widget_system m ph tr errs =
     \<lparr>mounted = m, sessions = (\<lambda>b. None)(0 \<mapsto> \<lparr>owner = 0, phase = ph\<rparr>),
      next_bridge = 1, next_inst = 1, trace = tr, console = errs\<rparr>"

text \<open>An environment in which the iframe's document cannot be accessed.\<close>

definition no_document_env :: host_env where
  "no_document_env = sample_env\<lparr>iframeDoc := False\<rparr>"








section \<open>Content resolution: lemmas\<close>

lemma is_text_entry_True:
  "is_text_entry c = Inr True \<longleftrightarrow>
     js_get c ''type'' = Inr (Some (JStr ''text'')) \<and> (\<exists>t. js_get c ''text'' = Inr t \<and> truthy t)"
  by (cases c) (auto simp: is_text_entry_def split: sum.splits)

lemma is_text_entry_Inl: "is_text_entry c = Inl e \<longleftrightarrow> c = JNull \<and> e = TypeError"
  by (cases c) (auto simp: is_text_entry_def split: sum.splits)

lemma js_find_Some:
  "js_find p cs = Inr (Some c) \<Longrightarrow>
     \<exists>i<length cs. cs ! i = c \<and> p c = Inr True \<and> (\<forall>j<i. p (cs ! j) = Inr False)"
proof (induction cs)
  case Nil
  then show ?case by simp
next
  case (Cons a cs)
  show ?case
  proof (cases "p a")
    case (Inl e)
    with Cons.prems show ?thesis by simp
  next
    case (Inr hit)
    show ?thesis
    proof (cases hit)
      case True
      with Inr Cons.prems have "a = c" by simp
      with Inr True show ?thesis by (intro exI[of _ 0]) simp
    next
      case False
      with Inr Cons.prems have "js_find p cs = Inr (Some c)" by simp
      from Cons.IH[OF this] obtain i where i: "i < length cs" "cs ! i = c" "p c = Inr True"
        "\<forall>j<i. p (cs ! j) = Inr False" by blast
      have "\<forall>j<Suc i. p ((a # cs) ! j) = Inr False"
        using i(4) Inr False by (auto simp: less_Suc_eq_0_disj)
      with i show ?thesis by (intro exI[of _ "Suc i"]) simp
    qed
  qed
qed

lemma js_find_index:
  "i < length cs \<Longrightarrow> p (cs ! i) = Inr True \<Longrightarrow> (\<forall>j<i. p (cs ! j) = Inr False) \<Longrightarrow>
     js_find p cs = Inr (Some (cs ! i))"
proof (induction cs arbitrary: i)
  case Nil
  then show ?case by simp
next
  case (Cons a cs)
  show ?case
  proof (cases i)
    case 0
    with Cons.prems show ?thesis by simp
  next
    case (Suc k)
    with Cons.prems have a: "p a = Inr False" by auto
    have "js_find p cs = Inr (Some (cs ! k))"
      using Cons.prems Suc by (intro Cons.IH) auto
    with a Suc show ?thesis by simp
  qed
qed

lemma js_find_no_hit:
  "\<forall>c\<in>set cs. p c \<noteq> Inr True \<Longrightarrow> js_find p cs \<noteq> Inr (Some c')"
  by (induction cs) (auto split: sum.splits bool.splits)

text \<open>The resolver changes the payload only when \<^verbatim>\<open>find\<close> selects an entry.\<close>

lemma htmlContent_unchanged:
  assumes "\<And>parsed cs c. parse raw = Some parsed \<Longrightarrow>
             js_get parsed ''contents'' = Inr (Some (JArr cs)) \<Longrightarrow>
             js_find is_text_entry cs \<noteq> Inr (Some c)"
  shows "htmlContent parse raw = JStr raw"
proof (cases "parse raw")
  case None
  then show ?thesis by (simp add: htmlContent_def htmlContent_try_def)
next
  case (Some parsed)
  show ?thesis
  proof (cases "js_get parsed ''contents''")
    case (Inl e)
    with Some show ?thesis by (simp add: htmlContent_def htmlContent_try_def)
  next
    case (Inr contents)
    show ?thesis
    proof (cases "\<exists>cs. contents = Some (JArr cs)")
      case False
      then have "\<not> isArray contents"
        by (cases contents rule: isArray.cases) auto
      with Some Inr show ?thesis by (simp add: htmlContent_def htmlContent_try_def)
    next
      case True
      then obtain cs where cs: "contents = Some (JArr cs)" by blast
      have nohit: "js_find is_text_entry cs \<noteq> Inr (Some c)" for c
        using assms[OF Some] Inr cs by simp
      show ?thesis
      proof (cases "js_find is_text_entry cs")
        case (Inl e)
        with Some Inr cs show ?thesis by (simp add: htmlContent_def htmlContent_try_def)
      next
        case found: (Inr textContent)
        with nohit have "textContent = None" by (cases textContent) auto
        with found Some Inr cs show ?thesis
          by (simp add: htmlContent_def htmlContent_try_def textContent_text_def)
      qed
    qed
  qed
qed

text \<open>When \<^verbatim>\<open>find\<close> selects an entry, the result is that entry's text.\<close>

lemma htmlContent_selected:
  assumes "parse raw = Some parsed"
    and "js_get parsed ''contents'' = Inr (Some (JArr cs))"
    and "js_find is_text_entry cs = Inr (Some c)"
  shows "js_get c ''text'' = Inr (Some (htmlContent parse raw)) \<and> truthy (Some (htmlContent parse raw))"
proof -
  from js_find_Some[OF assms(3)] have "is_text_entry c = Inr True" by blast
  then obtain t where t: "js_get c ''text'' = Inr t" "truthy t"
    by (auto simp: is_text_entry_True)
  then obtain v where v: "t = Some v" by (cases t) auto
  have "htmlContent parse raw = v"
    using assms t v by (simp add: htmlContent_def htmlContent_try_def textContent_text_def)
  with t v show ?thesis by simp
qed

section \<open>Traces: lemmas\<close>

lemma new_bridges_append: "new_bridges (tr @ tr') = new_bridges tr @ new_bridges tr'"
  by (induction tr rule: new_bridges.induct) auto

lemma closes_append: "closes b (tr @ tr') = closes b tr + closes b tr'"
  by (induction tr) (auto simp: closes_def)

lemma discipline_append:
  "discipline ob (tr @ tr') =
     (case discipline ob tr of None \<Rightarrow> None | Some ob1 \<Rightarrow> discipline ob1 tr')"
  by (induction ob tr rule: discipline.induct) auto

lemma discipline_open:
  "discipline ob tr = Some (Some b) \<Longrightarrow> b \<in> set (new_bridges tr) \<or> ob = Some b"
  by (induction ob tr rule: discipline.induct) (auto split: if_splits)

lemma discipline_closes:
  "discipline ob tr = Some ob' \<Longrightarrow> distinct (new_bridges tr) \<Longrightarrow>
   (\<forall>b. ob = Some b \<longrightarrow> b \<notin> set (new_bridges tr)) \<Longrightarrow>
   closes b tr = (if (b \<in> set (new_bridges tr) \<or> ob = Some b) \<and> ob' \<noteq> Some b then 1 else 0)"
proof (induction ob tr rule: discipline.induct)
  case (1 ob)
  then show ?case by (simp add: closes_def)
next
  case (2 ob b0 cl th tr)
  then have ob: "ob = None" and rest: "discipline (Some b0) tr = Some ob'"
    by (auto split: if_splits)
  from 2 have "closes b tr
      = (if (b \<in> set (new_bridges tr) \<or> Some b0 = Some b) \<and> ob' \<noteq> Some b then 1 else 0)"
    using ob rest by simp
  then show ?case using ob by (auto simp: closes_def)
next
  case (3 ob b0 tr)
  then have ob: "ob = Some b0" and rest: "discipline None tr = Some ob'"
    by (auto split: if_splits)
  from 3 ob have fresh: "b0 \<notin> set (new_bridges tr)" by simp
  with discipline_open[of None tr b0] rest have "ob' \<noteq> Some b0" by auto
  moreover from 3 ob rest have "closes b tr
      = (if (b \<in> set (new_bridges tr) \<or> None = Some b) \<and> ob' \<noteq> Some b then 1 else 0)"
    by simp
  ultimately show ?case using ob fresh by (auto simp: closes_def)
qed (simp_all add: closes_def)

lemma discipline_before_new:
  assumes "discipline None (pre @ NewBridge b cl th # post) = Some ob"
  shows "discipline None pre = Some None"
proof (cases "discipline None pre")
  case None
  with assms show ?thesis by (simp add: discipline_append)
next
  case (Some ob1)
  with assms show ?thesis by (cases ob1) (auto simp: discipline_append)
qed

section \<open>The component's operations: what each leaves unchanged\<close>

lemma set_state_frame [simp]:
  "trace (set_state i f s) = trace s"
  "sessions (set_state i f s) = sessions s"
  "next_bridge (set_state i f s) = next_bridge s"
  "next_inst (set_state i f s) = next_inst s"
  "console (set_state i f s) = console s"
  by (auto simp: set_state_def split: option.splits)

lemma set_state_mounted:
  "mounted (set_state i f s) =
     (case mounted s of None \<Rightarrow> None | Some c \<Rightarrow> Some (if inst_id c = i then f c else c))"
  by (auto simp: set_state_def split: option.splits)

lemma emit_frame [simp]:
  "trace (emit as s) = trace s @ as"
  "sessions (emit as s) = sessions s"
  "next_bridge (emit as s) = next_bridge s"
  "next_inst (emit as s) = next_inst s"
  "mounted (emit as s) = mounted s"
  "console (emit as s) = console s"
  by (auto simp: emit_def)

lemma set_phase_frame [simp]:
  "trace (set_phase b i ph s) = trace s"
  "sessions (set_phase b i ph s) = (sessions s)(b \<mapsto> \<lparr>owner = i, phase = ph\<rparr>)"
  "next_bridge (set_phase b i ph s) = next_bridge s"
  "next_inst (set_phase b i ph s) = next_inst s"
  "mounted (set_phase b i ph s) = mounted s"
  "console (set_phase b i ph s) = console s"
  by (auto simp: set_phase_def)

lemma catch_setup_frame [simp]:
  "trace (catch_setup i err s) = trace s"
  "sessions (catch_setup i err s) = sessions s"
  "next_bridge (catch_setup i err s) = next_bridge s"
  "next_inst (catch_setup i err s) = next_inst s"
  "console (catch_setup i err s) = console s @ [err]"
  by (auto simp: catch_setup_def)

lemma live_bridge_console [simp]: "live_bridge (s\<lparr>console := k\<rparr>) = live_bridge s"
  by (simp add: live_bridge_def)

lemma catch_setup_mounted:
  "mounted (catch_setup i err s) =
     (case mounted s of
        None \<Rightarrow> None
      | Some c \<Rightarrow>
          Some (if inst_id c = i
                then c\<lparr>error := Some (case err of Error m \<Rightarrow> m | NonError \<Rightarrow> ''Failed to set up app''),
                       loading := False\<rparr>
                else c))"
  by (simp add: catch_setup_def set_state_mounted)

lemma live_bridge_set_state:
  "(\<And>c. setup_cleanup (f c) = setup_cleanup c) \<Longrightarrow> live_bridge (set_state i f s) = live_bridge s"
  by (auto simp: live_bridge_def set_state_mounted split: option.splits)

lemma live_bridge_catch_setup [simp]: "live_bridge (catch_setup i err s) = live_bridge s"
  by (simp add: catch_setup_def live_bridge_set_state)

lemma live_bridge_emit [simp]: "live_bridge (emit as s) = live_bridge s"
  by (simp add: live_bridge_def)

lemma live_bridge_set_phase [simp]: "live_bridge (set_phase b i ph s) = live_bridge s"
  by (simp add: live_bridge_def)

lemma setupApp_loaded_trace:
  "trace (setupApp_loaded b cw s) = trace s \<or>
   trace (setupApp_loaded b cw s) = trace s @ [NewTransport b, Connect b]"
  by (auto simp: setupApp_loaded_def split: option.splits)

lemma setupApp_loaded_frame [simp]:
  "live_bridge (setupApp_loaded b cw s) = live_bridge s"
  "next_bridge (setupApp_loaded b cw s) = next_bridge s"
  by (auto simp: setupApp_loaded_def split: option.splits)

lemma setupApp_connected_frame [simp]:
  "trace (setupApp_connected b r s) = trace s"
  "live_bridge (setupApp_connected b r s) = live_bridge s"
  "next_bridge (setupApp_connected b r s) = next_bridge s"
  by (auto simp: setupApp_connected_def live_bridge_set_state split: option.splits)

lemma oninitialized_frame [simp]:
  "trace (oninitialized b s) = trace s"
  "live_bridge (oninitialized b s) = live_bridge s"
  "next_bridge (oninitialized b s) = next_bridge s"
  "sessions (oninitialized b s) = sessions s"
  by (auto simp: oninitialized_def live_bridge_set_state split: option.splits)

lemma onerror_frame [simp]:
  "trace (onerror b m s) = trace s"
  "live_bridge (onerror b m s) = live_bridge s"
  "next_bridge (onerror b m s) = next_bridge s"
  "sessions (onerror b m s) = sessions s"
  by (auto simp: onerror_def live_bridge_set_state split: option.splits)

text \<open>The cleanup closes the live bridge, and nothing else.\<close>

lemma setup_cleanup_run_trace:
  "trace (setup_cleanup_run env s) =
     trace s @ (case live_bridge s of None \<Rightarrow> [] | Some b \<Rightarrow> [Close b])"
  by (auto simp: setup_cleanup_run_def live_bridge_def Let_def split: option.splits)

lemma setup_cleanup_run_frame [simp]:
  "next_bridge (setup_cleanup_run env s) = next_bridge s"
  "sessions (setup_cleanup_run env s) = sessions s"
  "next_inst (setup_cleanup_run env s) = next_inst s"
  by (auto simp: setup_cleanup_run_def Let_def emit_def split: option.splits)

lemma setup_cleanup_run_mounted:
  "mounted (setup_cleanup_run env s) =
     (case mounted s of
        None \<Rightarrow> None
      | Some c \<Rightarrow>
          (case setup_cleanup c of
             None \<Rightarrow> Some c
           | Some bo \<Rightarrow> Some (c\<lparr>bridgeRef := None, initialized := False, setup_cleanup := None\<rparr>)))"
  by (auto simp: setup_cleanup_run_def Let_def set_state_mounted split: option.splits)

lemma fetch_effect_trace:
  "trace (fetch_effect L p s) = trace s \<or> (\<exists>uri. trace (fetch_effect L p s) = trace s @ [ReadResource uri])"
  by (auto simp: fetch_effect_def split: option.splits)

lemma fetch_effect_frame [simp]:
  "next_bridge (fetch_effect L p s) = next_bridge s"
  "sessions (fetch_effect L p s) = sessions s"
  "live_bridge (fetch_effect L p s) = live_bridge s"
  by (auto simp: fetch_effect_def live_bridge_set_state split: option.splits)


section \<open>Every step keeps the bridge discipline\<close>

lemma extends_calmly_refl: "extends_calmly s s"
  by (simp add: extends_calmly_def)

lemma extends_calmly_same:
  "trace s' = trace s \<Longrightarrow> live_bridge s' = live_bridge s \<Longrightarrow> next_bridge s' = next_bridge s \<Longrightarrow>
   extends_calmly s s'"
  by (simp add: extends_calmly_def)

lemma extends_calmly_trans:
  "extends_calmly s s' \<Longrightarrow> extends_calmly s' s'' \<Longrightarrow> extends_calmly s s''"
  by (auto simp: extends_calmly_def discipline_append new_bridges_append)

lemma extends_calmly_then:
  "extends_calmly s s' \<Longrightarrow> extends s' s'' \<Longrightarrow> extends s s''"
  unfolding extends_calmly_def extends_def
  by (elim exE conjE) (auto simp: discipline_append new_bridges_append)

lemma extends_calmly_extends: "extends_calmly s s' \<Longrightarrow> extends s s'"
  by (auto simp: extends_calmly_def extends_def)

lemma bridge_inv_extends:
  assumes "bridge_inv s" and "extends s s'"
  shows "bridge_inv s'"
proof -
  from assms(2) obtain as where as: "trace s' = trace s @ as"
      "discipline (live_bridge s) as = Some (live_bridge s')"
      "(new_bridges as = [] \<and> next_bridge s' = next_bridge s)
        \<or> (new_bridges as = [next_bridge s] \<and> next_bridge s' = Suc (next_bridge s))"
    by (auto simp: extends_def)
  from assms(1) have inv: "discipline None (trace s) = Some (live_bridge s)"
      "distinct (new_bridges (trace s))" "\<forall>b\<in>set (new_bridges (trace s)). b < next_bridge s"
    by (auto simp: bridge_inv_def)
  have 1: "discipline None (trace s') = Some (live_bridge s')"
    using as(1,2) inv(1) by (simp add: discipline_append)
  from as(3) inv(2,3) have 2: "distinct (new_bridges (trace s'))"
    and 3: "\<forall>b\<in>set (new_bridges (trace s')). b < next_bridge s'"
    by (auto simp: as(1) new_bridges_append)
  from 1 2 3 show ?thesis by (simp add: bridge_inv_def)
qed

lemma calm_cleanup: "extends_calmly s (setup_cleanup_run env s)"
  unfolding extends_calmly_def
proof (intro exI conjI)
  show "trace (setup_cleanup_run env s)
      = trace s @ (case live_bridge s of None \<Rightarrow> [] | Some b \<Rightarrow> [Close b])"
    by (rule setup_cleanup_run_trace)
  have "live_bridge (setup_cleanup_run env s) = None"
    by (auto simp: live_bridge_def setup_cleanup_run_mounted split: option.splits)
  then show "discipline (live_bridge s) (case live_bridge s of None \<Rightarrow> [] | Some b \<Rightarrow> [Close b])
      = Some (live_bridge (setup_cleanup_run env s))"
    by (cases "live_bridge s") auto
  show "new_bridges (case live_bridge s of None \<Rightarrow> [] | Some b \<Rightarrow> [Close b]) = []"
    by (cases "live_bridge s") auto
qed simp

lemma calm_fetch: "extends_calmly s (fetch_effect L p s)"
  using fetch_effect_trace[of L p s] unfolding extends_calmly_def by auto

lemma calm_loaded: "extends_calmly s (setupApp_loaded b cw s)"
  using setupApp_loaded_trace[of b cw s] unfolding extends_calmly_def by auto

lemma calm_connected: "extends_calmly s (setupApp_connected b r s)"
  by (simp add: extends_calmly_same)

lemma calm_oninitialized: "extends_calmly s (oninitialized b s)"
  by (simp add: extends_calmly_same)

lemma calm_onerror: "extends_calmly s (onerror b m s)"
  by (simp add: extends_calmly_same)

text \<open>
  \<^verbatim>\<open>setupApp\<close>: when the constructor returns, the trace gains the construction of the next
  bridge, followed at most by the document write; when it throws, nothing.
\<close>

lemma setupApp_result:
  assumes "mounted s = Some c"
  shows "(case setupApp env (inst_id c) cl content s of
           (None, s') \<Rightarrow> trace s' = trace s \<and> next_bridge s' = next_bridge s
         | (Some b, s') \<Rightarrow> b = next_bridge s \<and> next_bridge s' = Suc b
              \<and> (\<exists>as. trace s' = trace s @ NewBridge b cl (dark env) # as \<and> new_bridges as = []
                       \<and> (\<forall>ob. discipline ob as = Some ob)))
         \<and> (\<exists>c'. mounted (snd (setupApp env (inst_id c) cl content s)) = Some c'
                  \<and> inst_id c' = inst_id c \<and> setup_cleanup c' = setup_cleanup c)"
  using assms
  by (auto simp: setupApp_def Let_def catch_setup_mounted split: option.splits)

lemma extends_setup_effect:
  assumes "live_bridge s = None"
  shows "extends s (setup_effect env p s)"
proof (cases "mounted s")
  case None
  then show ?thesis by (simp add: setup_effect_def extends_calmly_refl extends_calmly_extends)
next
  case (Some c)
  show ?thesis
  proof (cases "mcpClient p = None \<or> resourceContent p = [] \<or> \<not> iframeRef c")
    case True
    with Some have "setup_effect env p s = s"
      by (auto simp: setup_effect_def split: option.splits)
    then show ?thesis by (simp add: extends_calmly_refl extends_calmly_extends)
  next
    case False
    then obtain cl where cl: "mcpClient p = Some cl" by auto
    obtain bo s1 where r: "setupApp env (inst_id c) cl (resourceContent p) s = (bo, s1)"
      by (cases "setupApp env (inst_id c) cl (resourceContent p) s") auto
    from setupApp_result[OF Some, where env = env and cl = cl and content = "resourceContent p"] r
    obtain c1 where c1: "mounted s1 = Some c1" "inst_id c1 = inst_id c" by auto
    have eff: "setup_effect env p s = set_state (inst_id c) (\<lambda>c. c\<lparr>setup_cleanup := Some bo\<rparr>) s1"
      using Some False cl r by (simp add: setup_effect_def)
    have live': "live_bridge (setup_effect env p s) = bo"
      using c1 by (cases bo) (auto simp: eff live_bridge_def set_state_mounted)
    show ?thesis
    proof (cases bo)
      case None
      with setupApp_result[OF Some, where env = env and cl = cl and content = "resourceContent p"] r
      have "trace s1 = trace s" "next_bridge s1 = next_bridge s" by auto
      with live' None assms show ?thesis
        by (intro extends_calmly_extends extends_calmly_same) (auto simp: eff)
    next
      case (Some b)
      with setupApp_result[OF \<open>mounted s = Some c\<close>, where env = env and cl = cl and content = "resourceContent p"] r
      obtain as where b: "b = next_bridge s" "next_bridge s1 = Suc b"
          "trace s1 = trace s @ NewBridge b cl (dark env) # as" "new_bridges as = []"
          "\<forall>ob. discipline ob as = Some ob"
        by auto
      show ?thesis
        unfolding extends_def
        by (rule exI[of _ "NewBridge b cl (dark env) # as"])
           (use b live' Some assms in \<open>auto simp: eff\<close>)
    qed
  qed
qed

lemma live_bridge_cleanup [simp]: "live_bridge (setup_cleanup_run env s) = None"
  by (auto simp: live_bridge_def setup_cleanup_run_mounted split: option.splits)

lemma extends_mount: "extends s (mount L env p s)"
proof (cases "mounted s")
  case (Some c)
  then show ?thesis by (simp add: mount_def extends_calmly_refl extends_calmly_extends)
next
  case None
  define c0 where "c0 = \<lparr>inst_id = next_inst s, loading = True, error = None, initialized = False,
                   bridgeRef = None, iframeRef = truthy_str (getToolUiResourceUri L (tool p)),
                   fetch_deps = (getToolUiResourceUri L (tool p), onReadResource p),
                   setup_deps = (resourceContent p, mcpClient p),
                   setup_cleanup = None\<rparr>"
  define s0 where "s0 = s\<lparr>mounted := Some c0, next_inst := Suc (next_inst s)\<rparr>"
  have m: "mount L env p s = setup_effect env p (fetch_effect L p s0)"
    using None by (simp add: mount_def Let_def s0_def c0_def)
  have live0: "live_bridge s0 = None" by (simp add: live_bridge_def s0_def c0_def)
  have "live_bridge s = None" using None by (simp add: live_bridge_def)
  with live0 have "extends_calmly s s0"
    by (intro extends_calmly_same) (simp_all add: s0_def)
  then have "extends_calmly s (fetch_effect L p s0)"
    using calm_fetch extends_calmly_trans by blast
  moreover have "extends (fetch_effect L p s0) (setup_effect env p (fetch_effect L p s0))"
    by (intro extends_setup_effect) (simp add: live0)
  ultimately show ?thesis unfolding m by (rule extends_calmly_then)
qed

lemma extends_update: "extends s (update L env p s)"
proof (cases "mounted s")
  case None
  then show ?thesis by (simp add: update_def extends_calmly_refl extends_calmly_extends)
next
  case (Some c)
  define s1 where "s1 = s\<lparr>mounted := Some (c\<lparr>iframeRef := truthy_str (getToolUiResourceUri L (tool p)),
                                        fetch_deps := (getToolUiResourceUri L (tool p), onReadResource p),
                                        setup_deps := (resourceContent p, mcpClient p)\<rparr>)\<rparr>"
  define s2 where "s2 = (if (resourceContent p, mcpClient p) \<noteq> setup_deps c
                         then setup_cleanup_run env s1 else s1)"
  define s3 where "s3 = (if (getToolUiResourceUri L (tool p), onReadResource p) \<noteq> fetch_deps c
                         then fetch_effect L p s2 else s2)"
  have u: "update L env p s
      = (if (resourceContent p, mcpClient p) \<noteq> setup_deps c then setup_effect env p s3 else s3)"
    using Some by (simp add: update_def Let_def s1_def s2_def s3_def)
  have "live_bridge s1 = live_bridge s"
    using Some by (simp add: live_bridge_def s1_def)
  then have 1: "extends_calmly s s1"
    by (intro extends_calmly_same) (simp_all add: s1_def)
  have 2: "extends_calmly s1 s2"
    by (simp add: s2_def calm_cleanup extends_calmly_refl)
  have 3: "extends_calmly s2 s3"
    by (simp add: s3_def calm_fetch extends_calmly_refl)
  from 1 2 3 have calm: "extends_calmly s s3"
    using extends_calmly_trans by blast
  show ?thesis
  proof (cases "(resourceContent p, mcpClient p) \<noteq> setup_deps c")
    case True
    then have "live_bridge s3 = None" by (simp add: s3_def s2_def)
    then have "extends s3 (setup_effect env p s3)" by (rule extends_setup_effect)
    with calm True show ?thesis unfolding u by (simp add: extends_calmly_then)
  next
    case False
    with calm show ?thesis unfolding u by (simp add: extends_calmly_extends)
  qed
qed

lemma extends_unmount: "extends s (unmount env s)"
proof -
  have "live_bridge (unmount env s) = None"
    by (simp add: unmount_def live_bridge_def)
  then have "extends_calmly (setup_cleanup_run env s) (unmount env s)"
    by (intro extends_calmly_same) (simp_all add: unmount_def)
  with calm_cleanup[of s env] show ?thesis
    using extends_calmly_trans extends_calmly_extends by blast
qed

lemma extends_step: "extends s (step L e s)"
  by (cases e)
     (simp_all add: extends_mount extends_update extends_unmount extends_calmly_extends
        calm_loaded calm_connected calm_oninitialized calm_onerror)

lemma bridge_inv_init: "bridge_inv init"
  by (simp add: bridge_inv_def init_def live_bridge_def)

lemma run_snoc: "run L s (es @ [e]) = step L e (run L s es)"
  by (simp add: run_def)

lemma bridge_inv_run: "bridge_inv (run L init es)"
proof (induction es rule: rev_induct)
  case Nil
  then show ?case by (simp add: run_def bridge_inv_init)
next
  case (snoc e es)
  then show ?case by (simp add: run_snoc bridge_inv_extends extends_step)
qed

text \<open>What the invariant says about the number of closes.\<close>

lemma bridge_inv_closes:
  assumes "bridge_inv s"
  shows "closes b (trace s)
           = (if b \<in> set (new_bridges (trace s)) \<and> live_bridge s \<noteq> Some b then 1 else 0)"
  using assms discipline_closes[of None "trace s" "live_bridge s" b]
  by (simp add: bridge_inv_def)

lemma bridge_inv_live:
  assumes "bridge_inv s" and "live_bridge s = Some b"
  shows "b \<in> set (new_bridges (trace s))"
  using assms discipline_open[of None "trace s" b] by (simp add: bridge_inv_def)

lemma bridge_inv_before_new:
  assumes "bridge_inv s" and "trace s = pre @ NewBridge b cl th # post"
    and "b' \<in> set (new_bridges pre)"
  shows "closes b' pre = 1"
proof -
  from assms(1,2) have d: "discipline None (pre @ NewBridge b cl th # post) = Some (live_bridge s)"
    and dist: "distinct (new_bridges (pre @ NewBridge b cl th # post))"
    by (auto simp: bridge_inv_def)
  from discipline_before_new[OF d] have "discipline None pre = Some None" .
  moreover from dist have "distinct (new_bridges pre)" by (simp add: new_bridges_append)
  ultimately show ?thesis
    using discipline_closes[of None pre None b'] assms(3) by simp
qed

section \<open>Content resolution: properties\<close>

lemmas payload_defs = payload_plain_def payload_envelope_def payload_empty_first_def
  payload_empty_only_def payload_blob_def payload_inner_def payload_nested_def

lemma sample_parse_plain: "sample_parse payload_plain = None"
  by (simp add: sample_parse_def payload_defs)

lemma sample_parse_markup: "sample_parse ''<p>hi</p>'' = None"
  by (simp add: sample_parse_def payload_defs)

lemma sample_parse_envelope:
  "sample_parse payload_envelope = Some (envelope [text_entry ''<html>...</html>''])"
  by (simp add: sample_parse_def payload_defs)

lemma sample_parse_empty_first:
  "sample_parse payload_empty_first = Some (envelope [text_entry [], text_entry ''<p>hi</p>''])"
  by (simp add: sample_parse_def payload_defs)

lemma sample_parse_empty_only:
  "sample_parse payload_empty_only = Some (envelope [text_entry [], JObj [(''type'', JStr ''text'')]])"
  by (simp add: sample_parse_def payload_defs)

lemma sample_parse_blob:
  "sample_parse payload_blob = Some (envelope [JObj [(''type'', JStr ''blob''), (''blob'', JStr ''AAAA'')]])"
  by (simp add: sample_parse_def payload_defs)

lemma sample_parse_inner:
  "sample_parse payload_inner = Some (envelope [text_entry ''<p>hi</p>''])"
  by (simp add: sample_parse_def payload_defs)

lemma sample_parse_nested:
  "sample_parse payload_nested = Some (envelope [text_entry payload_inner])"
  by (simp add: sample_parse_def payload_defs)

lemmas resolver_defs = htmlContent_def htmlContent_try_def textContent_text_def is_text_entry_def
  envelope_def text_entry_def


lemma payload_inner_nonempty: "payload_inner \<noteq> []"
  by (simp add: payload_inner_def)

lemma payload_inner_not_markup: "payload_inner \<noteq> ''<p>hi</p>''"
  by (simp add: payload_inner_def)

lemma htmlContent_empty_first:
  "htmlContent sample_parse payload_empty_first = JStr ''<p>hi</p>''"
  by (simp add: sample_parse_empty_first resolver_defs)

lemma htmlContent_nested: "htmlContent sample_parse payload_nested = JStr payload_inner"
  by (simp add: sample_parse_nested resolver_defs payload_inner_nonempty)

lemma htmlContent_inner: "htmlContent sample_parse payload_inner = JStr ''<p>hi</p>''"
  by (simp add: sample_parse_inner resolver_defs)

lemma htmlContent_envelope: "htmlContent sample_parse payload_envelope = JStr ''<html>...</html>''"
  by (simp add: sample_parse_envelope resolver_defs)


lemma no_truthy_text_no_hit:
  assumes "\<forall>c\<in>set cs. \<not> (js_get c ''type'' = Inr (Some (JStr ''text''))
                          \<and> (\<exists>u. js_get c ''text'' = Inr u \<and> truthy u))"
  shows "js_find is_text_entry cs \<noteq> Inr (Some c')"
  using assms by (intro js_find_no_hit) (simp add: is_text_entry_True)

lemma is_text_entry_False:
  "c \<noteq> JNull \<Longrightarrow>
   \<not> (js_get c ''type'' = Inr (Some (JStr ''text'')) \<and> (\<exists>u. js_get c ''text'' = Inr u \<and> truthy u)) \<Longrightarrow>
   is_text_entry c = Inr False"
  by (cases "is_text_entry c") (auto simp: is_text_entry_Inl is_text_entry_True)

text \<open>
  Claim C3, as the code has it. Content resolution is the total function \<open>htmlContent\<close>:
  every exception of the \<^verbatim>\<open>try\<close> body ends in the \<^verbatim>\<open>catch\<close>, which keeps the payload.
  If the payload does not parse, it is returned unchanged. If it parses to a value whose
  \<^verbatim>\<open>contents\<close> is an array, and entry \<open>i\<close> is the first one with type \<^verbatim>\<open>"text"\<close> and a
  truthy (for a string: non-empty) \<^verbatim>\<open>text\<close>, no entry before it being \<^verbatim>\<open>null\<close>, the
  \<^verbatim>\<open>text\<close> of entry \<open>i\<close> is returned. If no entry has type \<^verbatim>\<open>"text"\<close> with a truthy
  \<^verbatim>\<open>text\<close>, the payload is returned unchanged.
\<close>

theorem htmlContent_resolution:
  "(parse raw = None \<longrightarrow> htmlContent parse raw = JStr raw)
   \<and> (htmlContent_try parse raw = Inl e \<longrightarrow> htmlContent parse raw = JStr raw)
   \<and> (parse raw = Some parsed \<and> js_get parsed ''contents'' = Inr (Some (JArr cs))
        \<and> i < length cs
        \<and> js_get (cs ! i) ''type'' = Inr (Some (JStr ''text''))
        \<and> js_get (cs ! i) ''text'' = Inr (Some t) \<and> truthy (Some t)
        \<and> (\<forall>j<i. cs ! j \<noteq> JNull
                  \<and> \<not> (js_get (cs ! j) ''type'' = Inr (Some (JStr ''text''))
                         \<and> (\<exists>u. js_get (cs ! j) ''text'' = Inr u \<and> truthy u)))
        \<longrightarrow> htmlContent parse raw = t)
   \<and> ((\<forall>parsed cs. parse raw = Some parsed \<and> js_get parsed ''contents'' = Inr (Some (JArr cs))
          \<longrightarrow> (\<forall>c\<in>set cs. \<not> (js_get c ''type'' = Inr (Some (JStr ''text''))
                              \<and> (\<exists>u. js_get c ''text'' = Inr u \<and> truthy u))))
        \<longrightarrow> htmlContent parse raw = JStr raw)"
proof (intro conjI impI)
  assume "parse raw = None"
  then show "htmlContent parse raw = JStr raw"
    by (intro htmlContent_unchanged) simp
next
  assume "htmlContent_try parse raw = Inl e"
  then show "htmlContent parse raw = JStr raw" by (simp add: htmlContent_def)
next
  assume a: "parse raw = Some parsed \<and> js_get parsed ''contents'' = Inr (Some (JArr cs))
        \<and> i < length cs
        \<and> js_get (cs ! i) ''type'' = Inr (Some (JStr ''text''))
        \<and> js_get (cs ! i) ''text'' = Inr (Some t) \<and> truthy (Some t)
        \<and> (\<forall>j<i. cs ! j \<noteq> JNull
                  \<and> \<not> (js_get (cs ! j) ''type'' = Inr (Some (JStr ''text''))
                         \<and> (\<exists>u. js_get (cs ! j) ''text'' = Inr u \<and> truthy u)))"
  then have hit: "is_text_entry (cs ! i) = Inr True"
    by (auto simp: is_text_entry_True)
  from a have "\<forall>j<i. is_text_entry (cs ! j) = Inr False"
    by (intro allI impI is_text_entry_False) auto
  with a hit have "js_find is_text_entry cs = Inr (Some (cs ! i))"
    by (intro js_find_index) auto
  from htmlContent_selected[OF _ _ this, of parse raw parsed] a
  show "htmlContent parse raw = t" by simp
next
  assume a: "\<forall>parsed cs. parse raw = Some parsed \<and> js_get parsed ''contents'' = Inr (Some (JArr cs))
          \<longrightarrow> (\<forall>c\<in>set cs. \<not> (js_get c ''type'' = Inr (Some (JStr ''text''))
                              \<and> (\<exists>u. js_get c ''text'' = Inr u \<and> truthy u)))"
  show "htmlContent parse raw = JStr raw"
  proof (rule htmlContent_unchanged)
    fix parsed cs c
    assume "parse raw = Some parsed" "js_get parsed ''contents'' = Inr (Some (JArr cs))"
    with a show "js_find is_text_entry cs \<noteq> Inr (Some c)"
      by (intro no_truthy_text_no_hit) blast
  qed
qed

text \<open>
  Claim C3, witness: plain markup resolves to itself, the envelope whose first text entry
  is empty resolves to the text of its second entry, and an envelope without a text
  entry resolves to itself.
\<close>

theorem htmlContent_resolution_witness:
  "htmlContent sample_parse payload_plain = JStr payload_plain
   \<and> htmlContent sample_parse payload_empty_first = JStr ''<p>hi</p>''
   \<and> htmlContent sample_parse payload_blob = JStr payload_blob"
proof -
  have 1: "htmlContent sample_parse payload_plain = JStr payload_plain"
    using htmlContent_resolution[of sample_parse payload_plain] sample_parse_plain by simp
  have 2: "htmlContent sample_parse payload_empty_first = JStr ''<p>hi</p>''"
    using htmlContent_resolution[where parse = sample_parse and raw = payload_empty_first
        and parsed = "envelope [text_entry [], text_entry ''<p>hi</p>'']"
        and cs = "[text_entry [], text_entry ''<p>hi</p>'']" and i = 1
        and t = "JStr ''<p>hi</p>''"]
      sample_parse_empty_first
    by (simp add: envelope_def text_entry_def)
  have 3: "htmlContent sample_parse payload_blob = JStr payload_blob"
    using htmlContent_resolution[of sample_parse payload_blob] sample_parse_blob
    by (simp add: envelope_def)
  from 1 2 3 show ?thesis by simp
qed

text \<open>
  Claim C3 as stated fails: in \<open>payload_empty_first\<close> the first entry whose type is
  \<^verbatim>\<open>"text"\<close> carries the empty text, and resolution returns the text of the second entry,
  not the empty text of the first.
\<close>

theorem htmlContent_first_text_entry_counterexample:
  "sample_parse payload_empty_first = Some (envelope [text_entry [], text_entry ''<p>hi</p>''])
   \<and> js_get (text_entry []) ''type'' = Inr (Some (JStr ''text''))
   \<and> js_get (text_entry []) ''text'' = Inr (Some (JStr []))
   \<and> htmlContent sample_parse payload_empty_first = JStr ''<p>hi</p>''
   \<and> htmlContent sample_parse payload_empty_first \<noteq> JStr []"
  by (simp add: sample_parse_empty_first htmlContent_empty_first) (simp add: text_entry_def)

text \<open>
  Claim C8, as the code has it. A resolved string \<open>m\<close> in which \<^verbatim>\<open>find\<close> has nothing to
  select (it does not parse, or no entry of its \<^verbatim>\<open>contents\<close> has type \<^verbatim>\<open>"text"\<close> with a
  truthy \<^verbatim>\<open>text\<close>) resolves to itself, so resolving twice equals resolving once there;
  and an envelope whose \<^verbatim>\<open>contents\<close> has no entry of type \<^verbatim>\<open>"text"\<close> resolves to the raw
  payload.
\<close>

theorem htmlContent_fixed_points:
  "(htmlContent parse raw = JStr m
      \<and> (\<forall>parsed cs. parse m = Some parsed \<and> js_get parsed ''contents'' = Inr (Some (JArr cs))
            \<longrightarrow> (\<forall>c\<in>set cs. \<not> (js_get c ''type'' = Inr (Some (JStr ''text''))
                                \<and> (\<exists>u. js_get c ''text'' = Inr u \<and> truthy u))))
      \<longrightarrow> htmlContent parse m = htmlContent parse raw)
   \<and> (parse m = None \<longrightarrow> htmlContent parse m = JStr m)
   \<and> (parse raw = Some parsed \<and> js_get parsed ''contents'' = Inr (Some (JArr cs))
        \<and> (\<forall>c\<in>set cs. js_get c ''type'' \<noteq> Inr (Some (JStr ''text'')))
        \<longrightarrow> htmlContent parse raw = JStr raw)"
proof (intro conjI impI)
  assume a: "htmlContent parse raw = JStr m
      \<and> (\<forall>parsed cs. parse m = Some parsed \<and> js_get parsed ''contents'' = Inr (Some (JArr cs))
            \<longrightarrow> (\<forall>c\<in>set cs. \<not> (js_get c ''type'' = Inr (Some (JStr ''text''))
                                \<and> (\<exists>u. js_get c ''text'' = Inr u \<and> truthy u))))"
  have "htmlContent parse m = JStr m"
  proof (rule htmlContent_unchanged)
    fix parsed cs c
    assume "parse m = Some parsed" "js_get parsed ''contents'' = Inr (Some (JArr cs))"
    with a show "js_find is_text_entry cs \<noteq> Inr (Some c)"
      by (intro no_truthy_text_no_hit) blast
  qed
  with a show "htmlContent parse m = htmlContent parse raw" by simp
next
  assume "parse m = None"
  then show "htmlContent parse m = JStr m"
    by (intro htmlContent_unchanged) simp
next
  assume a: "parse raw = Some parsed \<and> js_get parsed ''contents'' = Inr (Some (JArr cs))
        \<and> (\<forall>c\<in>set cs. js_get c ''type'' \<noteq> Inr (Some (JStr ''text'')))"
  show "htmlContent parse raw = JStr raw"
  proof (rule htmlContent_unchanged)
    fix parsed' cs' c
    assume "parse raw = Some parsed'" "js_get parsed' ''contents'' = Inr (Some (JArr cs'))"
    with a have "cs' = cs" by simp
    with a show "js_find is_text_entry cs' \<noteq> Inr (Some c)"
      by (intro no_truthy_text_no_hit) blast
  qed
qed

text \<open>
  Claim C8, witness: the markup resolved from \<open>payload_inner\<close> resolves to itself, and
  the envelope \<open>payload_blob\<close>, which has no text entry, resolves to itself.
\<close>

theorem htmlContent_fixed_points_witness:
  "htmlContent sample_parse payload_inner = JStr ''<p>hi</p>''
   \<and> htmlContent sample_parse ''<p>hi</p>'' = JStr ''<p>hi</p>''
   \<and> htmlContent sample_parse payload_blob = JStr payload_blob"
proof -
  have 1: "htmlContent sample_parse ''<p>hi</p>'' = htmlContent sample_parse payload_inner"
    using htmlContent_fixed_points[where parse = sample_parse and raw = payload_inner
        and m = "''<p>hi</p>''"] htmlContent_inner sample_parse_markup
    by simp
  have 2: "htmlContent sample_parse payload_blob = JStr payload_blob"
    using htmlContent_fixed_points[where parse = sample_parse and raw = payload_blob
        and parsed = "envelope [JObj [(''type'', JStr ''blob''), (''blob'', JStr ''AAAA'')]]"
        and cs = "[JObj [(''type'', JStr ''blob''), (''blob'', JStr ''AAAA'')]]"]
      sample_parse_blob
    by (simp add: envelope_def)
  from 1 2 htmlContent_inner show ?thesis by simp
qed

text \<open>
  Claim C8 as stated fails: \<open>payload_nested\<close> resolves to the string \<open>payload_inner\<close>,
  which is itself an envelope, and resolving that string again does not return it
  unchanged.
\<close>

theorem htmlContent_idempotent_counterexample:
  "htmlContent sample_parse payload_nested = JStr payload_inner
   \<and> htmlContent sample_parse payload_inner = JStr ''<p>hi</p>''
   \<and> htmlContent sample_parse payload_inner \<noteq> JStr payload_inner"
  by (simp add: htmlContent_nested htmlContent_inner payload_inner_not_markup[symmetric])

text \<open>
  Claim C9. An envelope whose entries of type \<^verbatim>\<open>"text"\<close> all have an absent or empty
  \<^verbatim>\<open>text\<close> resolves to the raw payload. The entry \<^verbatim>\<open>find\<close> selects has type \<^verbatim>\<open>"text"\<close>,
  its \<^verbatim>\<open>text\<close> is present, is not the empty string and is the result; no entry before it
  has type \<^verbatim>\<open>"text"\<close> with a non-empty string as \<^verbatim>\<open>text\<close>. Conversely the first entry with
  type \<^verbatim>\<open>"text"\<close> and a non-empty string as \<^verbatim>\<open>text\<close> is selected, when the entries before it
  are not \<^verbatim>\<open>null\<close> and those of type \<^verbatim>\<open>"text"\<close> have an absent or empty \<^verbatim>\<open>text\<close>.
\<close>

theorem empty_text_never_selected:
  "(parse raw = Some parsed \<and> js_get parsed ''contents'' = Inr (Some (JArr cs))
      \<and> (\<forall>c\<in>set cs. js_get c ''type'' = Inr (Some (JStr ''text''))
            \<longrightarrow> js_get c ''text'' = Inr None \<or> js_get c ''text'' = Inr (Some (JStr [])))
      \<longrightarrow> htmlContent parse raw = JStr raw)
   \<and> (parse raw = Some parsed \<and> js_get parsed ''contents'' = Inr (Some (JArr cs))
      \<and> js_find is_text_entry cs = Inr (Some c)
      \<longrightarrow> (\<exists>i<length cs. cs ! i = c
             \<and> js_get c ''type'' = Inr (Some (JStr ''text''))
             \<and> js_get c ''text'' = Inr (Some (htmlContent parse raw))
             \<and> htmlContent parse raw \<noteq> JStr []
             \<and> (\<forall>j<i. \<not> (js_get (cs ! j) ''type'' = Inr (Some (JStr ''text''))
                          \<and> (\<exists>s. s \<noteq> [] \<and> js_get (cs ! j) ''text'' = Inr (Some (JStr s)))))))
   \<and> (i < length cs
      \<and> js_get (cs ! i) ''type'' = Inr (Some (JStr ''text''))
      \<and> js_get (cs ! i) ''text'' = Inr (Some (JStr s)) \<and> s \<noteq> []
      \<and> (\<forall>j<i. cs ! j \<noteq> JNull
                \<and> (js_get (cs ! j) ''type'' = Inr (Some (JStr ''text''))
                     \<longrightarrow> js_get (cs ! j) ''text'' = Inr None
                         \<or> js_get (cs ! j) ''text'' = Inr (Some (JStr []))))
      \<longrightarrow> js_find is_text_entry cs = Inr (Some (cs ! i)))"
proof (intro conjI impI)
  assume a: "parse raw = Some parsed \<and> js_get parsed ''contents'' = Inr (Some (JArr cs))
      \<and> (\<forall>c\<in>set cs. js_get c ''type'' = Inr (Some (JStr ''text''))
            \<longrightarrow> js_get c ''text'' = Inr None \<or> js_get c ''text'' = Inr (Some (JStr [])))"
  show "htmlContent parse raw = JStr raw"
  proof (rule htmlContent_unchanged)
    fix parsed' cs' c'
    assume "parse raw = Some parsed'" "js_get parsed' ''contents'' = Inr (Some (JArr cs'))"
    with a have "cs' = cs" by simp
    moreover have "\<forall>c\<in>set cs. \<not> (js_get c ''type'' = Inr (Some (JStr ''text''))
                          \<and> (\<exists>u. js_get c ''text'' = Inr u \<and> truthy u))"
    proof (intro ballI notI)
      fix c assume c: "c \<in> set cs"
        and hit: "js_get c ''type'' = Inr (Some (JStr ''text''))
                    \<and> (\<exists>u. js_get c ''text'' = Inr u \<and> truthy u)"
      with a have "js_get c ''text'' = Inr None \<or> js_get c ''text'' = Inr (Some (JStr []))"
        by blast
      with hit show False by auto
    qed
    ultimately show "js_find is_text_entry cs' \<noteq> Inr (Some c')"
      by (intro no_truthy_text_no_hit) blast
  qed
next
  assume a: "parse raw = Some parsed \<and> js_get parsed ''contents'' = Inr (Some (JArr cs))
      \<and> js_find is_text_entry cs = Inr (Some c)"
  then obtain i where i: "i < length cs" "cs ! i = c" "is_text_entry c = Inr True"
      "\<forall>j<i. is_text_entry (cs ! j) = Inr False"
    using js_find_Some[of is_text_entry cs c] by blast
  from a have sel: "js_get c ''text'' = Inr (Some (htmlContent parse raw))"
      "truthy (Some (htmlContent parse raw))"
    using htmlContent_selected[of parse raw parsed cs c] by auto
  have earlier: "\<not> (js_get (cs ! j) ''type'' = Inr (Some (JStr ''text''))
                  \<and> (\<exists>s. s \<noteq> [] \<and> js_get (cs ! j) ''text'' = Inr (Some (JStr s))))" if "j < i" for j
  proof
    assume "js_get (cs ! j) ''type'' = Inr (Some (JStr ''text''))
                  \<and> (\<exists>s. s \<noteq> [] \<and> js_get (cs ! j) ''text'' = Inr (Some (JStr s)))"
    then have "is_text_entry (cs ! j) = Inr True"
      by (auto simp: is_text_entry_True)
    with i(4) that show False by simp
  qed
  from sel(2) have "htmlContent parse raw \<noteq> JStr []" by auto
  with i sel earlier show "\<exists>i<length cs. cs ! i = c
             \<and> js_get c ''type'' = Inr (Some (JStr ''text''))
             \<and> js_get c ''text'' = Inr (Some (htmlContent parse raw))
             \<and> htmlContent parse raw \<noteq> JStr []
             \<and> (\<forall>j<i. \<not> (js_get (cs ! j) ''type'' = Inr (Some (JStr ''text''))
                          \<and> (\<exists>s. s \<noteq> [] \<and> js_get (cs ! j) ''text'' = Inr (Some (JStr s)))))"
    by (intro exI[of _ i]) (auto simp: is_text_entry_True)
next
  assume a: "i < length cs
      \<and> js_get (cs ! i) ''type'' = Inr (Some (JStr ''text''))
      \<and> js_get (cs ! i) ''text'' = Inr (Some (JStr s)) \<and> s \<noteq> []
      \<and> (\<forall>j<i. cs ! j \<noteq> JNull
                \<and> (js_get (cs ! j) ''type'' = Inr (Some (JStr ''text''))
                     \<longrightarrow> js_get (cs ! j) ''text'' = Inr None
                         \<or> js_get (cs ! j) ''text'' = Inr (Some (JStr []))))"
  then have hit: "is_text_entry (cs ! i) = Inr True"
    by (auto simp: is_text_entry_True)
  have "\<forall>j<i. is_text_entry (cs ! j) = Inr False"
  proof (intro allI impI is_text_entry_False)
    fix j assume "j < i"
    with a show "cs ! j \<noteq> JNull" by blast
    show "\<not> (js_get (cs ! j) ''type'' = Inr (Some (JStr ''text''))
        \<and> (\<exists>u. js_get (cs ! j) ''text'' = Inr u \<and> truthy u))"
    proof
      assume hit: "js_get (cs ! j) ''type'' = Inr (Some (JStr ''text''))
        \<and> (\<exists>u. js_get (cs ! j) ''text'' = Inr u \<and> truthy u)"
      with a \<open>j < i\<close> have "js_get (cs ! j) ''text'' = Inr None
          \<or> js_get (cs ! j) ''text'' = Inr (Some (JStr []))"
        by blast
      with hit show False by auto
    qed
  qed
  with a hit show "js_find is_text_entry cs = Inr (Some (cs ! i))"
    by (intro js_find_index) auto
qed

text \<open>
  Claim C9, witness: \<open>payload_empty_only\<close> resolves to itself, and in
  \<open>payload_empty_first\<close> the second entry is selected.
\<close>

theorem empty_text_never_selected_witness:
  "htmlContent sample_parse payload_empty_only = JStr payload_empty_only
   \<and> js_find is_text_entry [text_entry [], text_entry ''<p>hi</p>''] = Inr (Some (text_entry ''<p>hi</p>''))
   \<and> htmlContent sample_parse payload_empty_first = JStr ''<p>hi</p>''"
proof -
  have 1: "htmlContent sample_parse payload_empty_only = JStr payload_empty_only"
    using empty_text_never_selected[where parse = sample_parse and raw = payload_empty_only
        and parsed = "envelope [text_entry [], JObj [(''type'', JStr ''text'')]]"
        and cs = "[text_entry [], JObj [(''type'', JStr ''text'')]]"]
      sample_parse_empty_only
    by (simp add: envelope_def text_entry_def)
  have 2: "js_find is_text_entry [text_entry [], text_entry ''<p>hi</p>'']
             = Inr (Some (text_entry ''<p>hi</p>''))"
    using empty_text_never_selected[where cs = "[text_entry [], text_entry ''<p>hi</p>'']"
        and i = 1 and s = "''<p>hi</p>''"]
    by (simp add: text_entry_def)
  have "\<exists>i<length [text_entry [], text_entry ''<p>hi</p>''].
          [text_entry [], text_entry ''<p>hi</p>''] ! i = text_entry ''<p>hi</p>''
          \<and> js_get (text_entry ''<p>hi</p>'') ''type'' = Inr (Some (JStr ''text''))
          \<and> js_get (text_entry ''<p>hi</p>'') ''text''
              = Inr (Some (htmlContent sample_parse payload_empty_first))
          \<and> htmlContent sample_parse payload_empty_first \<noteq> JStr []
          \<and> (\<forall>j<i. \<not> (js_get ([text_entry [], text_entry ''<p>hi</p>''] ! j) ''type''
                          = Inr (Some (JStr ''text''))
                       \<and> (\<exists>s. s \<noteq> [] \<and> js_get ([text_entry [], text_entry ''<p>hi</p>''] ! j) ''text''
                                            = Inr (Some (JStr s)))))"
    using empty_text_never_selected[where parse = sample_parse and raw = payload_empty_first
        and parsed = "envelope [text_entry [], text_entry ''<p>hi</p>'']"
        and cs = "[text_entry [], text_entry ''<p>hi</p>'']"
        and c = "text_entry ''<p>hi</p>''", THEN conjunct2, THEN conjunct1]
      sample_parse_empty_first 2
    by (simp add: envelope_def)
  then have 3: "htmlContent sample_parse payload_empty_first = JStr ''<p>hi</p>''"
    by (auto simp: text_entry_def)
  from 1 2 3 show ?thesis by simp
qed

section \<open>The concrete executions\<close>

lemmas machine_defs = mount_def update_def unmount_def setup_effect_def fetch_effect_def
  setup_cleanup_run_def setupApp_def setupApp_loaded_def setupApp_connected_def oninitialized_def
  onerror_def catch_setup_def set_state_def set_phase_def emit_def

lemma payload_envelope_nonempty: "payload_envelope \<noteq> []"
  by (simp add: payload_envelope_def)

lemma payload_plain_not_envelope: "payload_plain \<noteq> payload_envelope"
  by (simp add: payload_plain_def payload_envelope_def)

lemma sample_props_widget:
  "sample_props tool_widget
     = \<lparr>tool = tool_widget, mcpClient = Some 0, onReadResource = 0,
        resourceContent = payload_envelope\<rparr>"
  by (simp add: sample_props_def tool_widget_def sample_content_def)

lemma sample_props_widget2:
  "sample_props tool_widget2
     = \<lparr>tool = tool_widget2, mcpClient = Some 0, onReadResource = 0,
        resourceContent = payload_envelope\<rparr>"
  by (simp add: sample_props_def tool_widget2_def sample_content_def)

lemma sample_props_plain:
  "sample_props tool_plain
     = \<lparr>tool = tool_plain, mcpClient = Some 0, onReadResource = 0, resourceContent = []\<rparr>"
  by (simp add: sample_props_def tool_plain_def sample_content_def)

lemma sample_uri [simp]:
  "getToolUiResourceUri sample_lib tool_widget = Some ''ui://tool/widget''"
  "getToolUiResourceUri sample_lib tool_widget2 = Some ''ui://tool/widget''"
  "getToolUiResourceUri sample_lib tool_plain = None"
  by (simp_all add: sample_lib_def tool_widget_def tool_widget2_def tool_plain_def)

lemma widget_system_sel [simp]:
  "mounted (widget_system m ph tr errs) = m"
  "sessions (widget_system m ph tr errs) 0 = Some \<lparr>owner = 0, phase = ph\<rparr>"
  "next_bridge (widget_system m ph tr errs) = 1"
  "trace (widget_system m ph tr errs) = tr"
  "console (widget_system m ph tr errs) = errs"
  by (simp_all add: widget_system_def)

lemma widget_mount:
  "mount sample_lib sample_env (sample_props tool_widget) init
    = widget_system (Some (ready_renderer\<lparr>loading := True, initialized := False, bridgeRef := None\<rparr>))
        AwaitLoad (take 3 ready_trace) []"
  by (simp add: machine_defs init_def sample_props_widget sample_env_def truthy_str_def
      htmlContent_envelope payload_envelope_nonempty ready_renderer_def ready_trace_def
      widget_system_def)

lemma widget_loaded:
  "setupApp_loaded 0 True (widget_system m AwaitLoad (take 3 ready_trace) errs)
    = widget_system m AwaitConnect ready_trace errs"
  by (simp add: setupApp_loaded_def set_phase_def emit_def widget_system_def ready_trace_def)

lemma widget_connected:
  "setupApp_connected 0 None
      (widget_system (Some (ready_renderer\<lparr>loading := True, initialized := False, bridgeRef := None\<rparr>))
         AwaitConnect tr errs)
    = widget_system (Some (ready_renderer\<lparr>loading := True, initialized := False\<rparr>)) Connected tr errs"
  by (simp add: setupApp_connected_def set_phase_def set_state_def widget_system_def
      ready_renderer_def)

lemma widget_initialized:
  "oninitialized 0
      (widget_system (Some (ready_renderer\<lparr>loading := True, initialized := False\<rparr>)) Connected tr errs)
    = widget_system (Some ready_renderer) Connected tr errs"
  by (simp add: oninitialized_def set_state_def widget_system_def
      ready_renderer_def)

lemma until_ready_state:
  "run sample_lib init until_ready = widget_system (Some ready_renderer) Connected ready_trace []"
  by (simp add: run_def until_ready_def widget_mount widget_loaded widget_connected
      widget_initialized)

lemma ready_live: "live_bridge (widget_system (Some ready_renderer) ph tr errs) = Some 0"
  by (simp add: live_bridge_def ready_renderer_def)

section \<open>Teardown\<close>

lemma extends_trace: "extends s s' \<Longrightarrow> \<exists>as. trace s' = trace s @ as"
  by (auto simp: extends_def)

lemma extends_live:
  assumes "extends s s'" and "live_bridge s' = Some b"
  shows "b = next_bridge s \<or> live_bridge s = Some b"
proof -
  from assms obtain as where as: "discipline (live_bridge s) as = Some (Some b)"
      "new_bridges as = [] \<or> new_bridges as = [next_bridge s]"
    by (auto simp: extends_def)
  from discipline_open[OF as(1)] as(2) show ?thesis by auto
qed

lemma fetch_effect_keeps:
  "mounted s = Some c \<Longrightarrow>
   \<exists>c'. mounted (fetch_effect L p s) = Some c' \<and> bridgeRef c' = bridgeRef c
         \<and> initialized c' = initialized c"
  by (auto simp: fetch_effect_def set_state_mounted split: option.splits)

lemma setup_effect_keeps:
  "mounted s = Some c \<Longrightarrow>
   \<exists>c'. mounted (setup_effect env p s) = Some c' \<and> bridgeRef c' = bridgeRef c
         \<and> initialized c' = initialized c"
  by (auto simp: setup_effect_def setupApp_def Let_def set_state_mounted catch_setup_mounted
      split: option.splits prod.splits)

lemma unmount_live:
  assumes "live_bridge s = Some b"
  shows "trace (unmount env s) = trace s @ [Close b]" and "mounted (unmount env s) = None"
  using assms by (simp_all add: unmount_def setup_cleanup_run_trace)

text \<open>
  A render that changes the dependencies of the setup effect while a bridge is live: the
  close comes first, the setup effect runs after it, and the instance has dropped the
  bridge.
\<close>

lemma update_teardown:
  assumes "mounted s = Some c" and "live_bridge s = Some b"
    and "(resourceContent p, mcpClient p) \<noteq> setup_deps c"
  shows "\<exists>rest. trace (update L env p s) = trace s @ Close b # rest"
    and "\<exists>c'. mounted (update L env p s) = Some c' \<and> bridgeRef c' = None \<and> \<not> initialized c'"
    and "live_bridge (update L env p s) = Some b' \<Longrightarrow> b' = next_bridge s"
proof -
  define s1 where "s1 = s\<lparr>mounted := Some (c\<lparr>iframeRef := truthy_str (getToolUiResourceUri L (tool p)),
                                        fetch_deps := (getToolUiResourceUri L (tool p), onReadResource p),
                                        setup_deps := (resourceContent p, mcpClient p)\<rparr>)\<rparr>"
  define s2 where "s2 = setup_cleanup_run env s1"
  define s3 where "s3 = (if (getToolUiResourceUri L (tool p), onReadResource p) \<noteq> fetch_deps c
                         then fetch_effect L p s2 else s2)"
  have u: "update L env p s = setup_effect env p s3"
    using assms(1,3) by (simp add: update_def Let_def s1_def s2_def s3_def)
  have live1: "live_bridge s1 = Some b"
    using assms(1,2) by (simp add: live_bridge_def s1_def)
  have tr2: "trace s2 = trace s @ [Close b]"
    using live1 by (simp add: s2_def setup_cleanup_run_trace) (simp add: s1_def)
  have "setup_cleanup c \<noteq> None"
    using assms(1,2) by (auto simp: live_bridge_def split: option.splits)
  then obtain c2 where c2: "mounted s2 = Some c2" "bridgeRef c2 = None" "\<not> initialized c2"
    by (auto simp: s2_def setup_cleanup_run_mounted s1_def)
  from fetch_effect_keeps[OF c2(1)] c2
  obtain c3 where c3: "mounted s3 = Some c3" "bridgeRef c3 = None" "\<not> initialized c3"
    by (cases "(getToolUiResourceUri L (tool p), onReadResource p) \<noteq> fetch_deps c")
       (auto simp: s3_def)
  have "\<exists>as3. trace s3 = trace s2 @ as3"
    using fetch_effect_trace[of L p s2] by (auto simp: s3_def)
  then obtain as3 where tr3: "trace s3 = trace s2 @ as3" by blast
  have live3: "live_bridge s3 = None" by (simp add: s3_def s2_def)
  have nb3: "next_bridge s3 = next_bridge s" by (simp add: s3_def s2_def s1_def)
  have ext: "extends s3 (setup_effect env p s3)"
    using live3 by (rule extends_setup_effect)
  from extends_trace[OF ext] obtain as4 where "trace (setup_effect env p s3) = trace s3 @ as4"
    by blast
  with tr2 tr3 show "\<exists>rest. trace (update L env p s) = trace s @ Close b # rest"
    by (simp add: u)
  from setup_effect_keeps[OF c3(1)] c3
  show "\<exists>c'. mounted (update L env p s) = Some c' \<and> bridgeRef c' = None \<and> \<not> initialized c'"
    by (auto simp: u)
  show "b' = next_bridge s" if "live_bridge (update L env p s) = Some b'"
    using extends_live[OF ext] that live3 nb3 by (simp add: u)
qed

section \<open>Claim C1\<close>

text \<open>
  Claim C1, as the code has it. In every execution, each bridge is closed at most once,
  and when a bridge is constructed every bridge constructed before it has been closed
  exactly once. While a bridge \<open>b\<close> is live it has not been closed; unmounting then calls
  its \<^verbatim>\<open>close()\<close> once and discards the instance; a render that changes the resource
  content or the client calls its \<^verbatim>\<open>close()\<close> once, before every action of the next
  setup, and leaves the instance without bridge reference and not initialized. All of
  this holds in every environment, so also when \<^verbatim>\<open>close()\<close> rejects. A change of the
  selected tool tears the session down through such a change of content only.
\<close>

theorem bridge_closed_once_before_next_setup:
  "closes b (trace (run L init es)) \<le> 1
   \<and> (trace (run L init es) = pre @ NewBridge b cl th # post
        \<longrightarrow> (\<forall>b'\<in>set (new_bridges pre). closes b' pre = 1))
   \<and> (live_bridge (run L init es) = Some b \<longrightarrow>
        closes b (trace (run L init es)) = 0
      \<and> trace (step L (Unmount env) (run L init es)) = trace (run L init es) @ [Close b]
      \<and> closes b (trace (step L (Unmount env) (run L init es))) = 1
      \<and> mounted (step L (Unmount env) (run L init es)) = None
      \<and> (\<forall>c. mounted (run L init es) = Some c \<and> (resourceContent p, mcpClient p) \<noteq> setup_deps c
            \<longrightarrow> (\<exists>rest. trace (step L (Update p env) (run L init es))
                          = trace (run L init es) @ Close b # rest)
              \<and> closes b (trace (step L (Update p env) (run L init es))) = 1
              \<and> live_bridge (step L (Update p env) (run L init es)) \<noteq> Some b
              \<and> (\<exists>c'. mounted (step L (Update p env) (run L init es)) = Some c'
                       \<and> bridgeRef c' = None \<and> \<not> initialized c')))"
proof -
  define s where "s = run L init es"
  have inv: "bridge_inv s" unfolding s_def by (rule bridge_inv_run)
  have 1: "closes b (trace s) \<le> 1"
    by (simp add: bridge_inv_closes[OF inv])
  have 2: "\<forall>b'\<in>set (new_bridges pre). closes b' pre = 1"
    if "trace s = pre @ NewBridge b cl th # post"
    using bridge_inv_before_new[OF inv that] by blast
  have 3: "closes b (trace s) = 0
      \<and> trace (step L (Unmount env) s) = trace s @ [Close b]
      \<and> closes b (trace (step L (Unmount env) s)) = 1
      \<and> mounted (step L (Unmount env) s) = None
      \<and> (\<forall>c. mounted s = Some c \<and> (resourceContent p, mcpClient p) \<noteq> setup_deps c
            \<longrightarrow> (\<exists>rest. trace (step L (Update p env) s) = trace s @ Close b # rest)
              \<and> closes b (trace (step L (Update p env) s)) = 1
              \<and> live_bridge (step L (Update p env) s) \<noteq> Some b
              \<and> (\<exists>c'. mounted (step L (Update p env) s) = Some c'
                       \<and> bridgeRef c' = None \<and> \<not> initialized c'))"
    if live: "live_bridge s = Some b"
  proof (intro conjI allI impI)
    show zero: "closes b (trace s) = 0"
      using live by (simp add: bridge_inv_closes[OF inv])
    show "trace (step L (Unmount env) s) = trace s @ [Close b]"
      using unmount_live(1)[OF live] by simp
    then show "closes b (trace (step L (Unmount env) s)) = 1"
      using zero by (simp add: closes_append) (simp add: closes_def)
    show "mounted (step L (Unmount env) s) = None"
      using unmount_live(2)[OF live] by simp
  next
    fix c assume c: "mounted s = Some c \<and> (resourceContent p, mcpClient p) \<noteq> setup_deps c"
    note td = update_teardown[where L = L and env = env, OF conjunct1[OF c] live conjunct2[OF c]]
    show "\<exists>rest. trace (step L (Update p env) s) = trace s @ Close b # rest"
      using td(1) by simp
    show "\<exists>c'. mounted (step L (Update p env) s) = Some c' \<and> bridgeRef c' = None \<and> \<not> initialized c'"
      using td(2) by simp
    have constructed: "b \<in> set (new_bridges (trace s))"
      using bridge_inv_live[OF inv live] .
    with inv have "b < next_bridge s" by (auto simp: bridge_inv_def)
    with td(3)[of b] show notlive: "live_bridge (step L (Update p env) s) \<noteq> Some b"
      by auto
    have inv': "bridge_inv (step L (Update p env) s)"
      using inv extends_step by (rule bridge_inv_extends)
    from td(1) constructed have "b \<in> set (new_bridges (trace (step L (Update p env) s)))"
      by (auto simp: new_bridges_append)
    with notlive show "closes b (trace (step L (Update p env) s)) = 1"
      using bridge_inv_closes[OF inv', of b] by simp
  qed
  from 1 2 3 show ?thesis unfolding s_def by blast
qed

lemma props_reloaded_eq:
  "props_reloaded = \<lparr>tool = tool_widget, mcpClient = Some 0, onReadResource = 0,
                      resourceContent = payload_plain\<rparr>"
  by (simp add: props_reloaded_def sample_props_widget)

text \<open>
  Claim C1, witness: the widget tool is Ready with bridge 0 live; unmounting in an
  environment whose \<^verbatim>\<open>close()\<close> rejects closes bridge 0 once and discards the instance, and
  a render with new resource content closes it once and no longer holds it.
\<close>

theorem bridge_closed_once_before_next_setup_witness:
  "closes 0 (trace (run sample_lib init until_ready)) = 0
   \<and> trace (step sample_lib (Unmount rejecting_env) (run sample_lib init until_ready))
       = ready_trace @ [Close 0]
   \<and> closes 0 (trace (step sample_lib (Unmount rejecting_env) (run sample_lib init until_ready))) = 1
   \<and> mounted (step sample_lib (Unmount rejecting_env) (run sample_lib init until_ready)) = None
   \<and> closes 0 (trace (step sample_lib (Update props_reloaded rejecting_env)
                        (run sample_lib init until_ready))) = 1
   \<and> live_bridge (step sample_lib (Update props_reloaded rejecting_env)
                        (run sample_lib init until_ready)) \<noteq> Some 0"
proof -
  have live: "live_bridge (run sample_lib init until_ready) = Some 0"
    by (simp add: until_ready_state ready_live)
  have m: "mounted (run sample_lib init until_ready) = Some ready_renderer"
    by (simp add: until_ready_state)
  have changed: "(resourceContent props_reloaded, mcpClient props_reloaded) \<noteq> setup_deps ready_renderer"
    by (simp add: props_reloaded_eq ready_renderer_def payload_plain_not_envelope)
  have tr: "trace (run sample_lib init until_ready) = ready_trace"
    by (simp add: until_ready_state)
  from bridge_closed_once_before_next_setup[where L = sample_lib and es = until_ready and b = 0
      and env = rejecting_env and p = props_reloaded, THEN conjunct2, THEN conjunct2] live m changed tr
  show ?thesis by auto
qed

text \<open>
  Claim C1 as stated fails: \<open>tool_widget\<close> and \<open>tool_widget2\<close> declare the same UI resource,
  so \<^verbatim>\<open>AppsTab\<close> passes the same resource content for both. With the first one Ready,
  clicking the second changes neither dependency of the setup effect: no cleanup runs,
  bridge 0 is not closed and stays live.
\<close>

theorem tool_change_without_teardown_counterexample:
  "appsTab_renderer sample_content (Some 0) 0
       (selectTool tool_widget2
          \<lparr>appTools = [tool_widget, tool_widget2], selectedTool = Some tool_widget\<rparr>)
     = Some (sample_props tool_widget2)
   \<and> tool (sample_props tool_widget2) \<noteq> tool (sample_props tool_widget)
   \<and> is_ready (run sample_lib init until_ready)
   \<and> live_bridge (run sample_lib init until_ready) = Some 0
   \<and> trace (run sample_lib init (until_ready @ [Update (sample_props tool_widget2) sample_env]))
       = trace (run sample_lib init until_ready)
   \<and> closes 0 (trace (run sample_lib init (until_ready @ [Update (sample_props tool_widget2) sample_env]))) = 0
   \<and> live_bridge (run sample_lib init (until_ready @ [Update (sample_props tool_widget2) sample_env]))
       = Some 0"
proof -
  have 1: "appsTab_renderer sample_content (Some 0) 0
       (selectTool tool_widget2
          \<lparr>appTools = [tool_widget, tool_widget2], selectedTool = Some tool_widget\<rparr>)
     = Some (sample_props tool_widget2)"
    by (simp add: appsTab_renderer_def selectTool_def sample_props_def)
  have 2: "tool (sample_props tool_widget2) \<noteq> tool (sample_props tool_widget)"
    by (simp add: sample_props_def tool_widget_def tool_widget2_def)
  have 3: "is_ready (run sample_lib init until_ready)"
    by (simp add: until_ready_state is_ready_def ready_renderer_def)
  have 4: "live_bridge (run sample_lib init until_ready) = Some 0"
    by (simp add: until_ready_state ready_live)
  have u: "update sample_lib sample_env (sample_props tool_widget2)
             (widget_system (Some ready_renderer) Connected ready_trace [])
           = widget_system (Some ready_renderer) Connected ready_trace []"
    by (simp add: update_def sample_props_widget2 ready_renderer_def truthy_str_def
        widget_system_def)
  have r: "run sample_lib init (until_ready @ [Update (sample_props tool_widget2) sample_env])
           = widget_system (Some ready_renderer) Connected ready_trace []"
    by (simp add: run_snoc until_ready_state u)
  have 5: "closes 0 ready_trace = 0" by (simp add: closes_def ready_trace_def)
  from 1 2 3 4 5 show ?thesis by (simp add: r until_ready_state ready_live)
qed

section \<open>Ready\<close>

lemma is_ready_set_state:
  "(\<And>c. initialized (f c) = initialized c) \<Longrightarrow> is_ready (set_state i f s) = is_ready s"
  by (auto simp: is_ready_def set_state_mounted split: option.splits)

lemma is_ready_console [simp]: "is_ready (s\<lparr>console := k\<rparr>) = is_ready s"
  by (simp add: is_ready_def)

lemma is_ready_catch_setup [simp]: "is_ready (catch_setup i err s) = is_ready s"
  by (simp add: catch_setup_def is_ready_set_state)

lemma is_ready_simps [simp]:
  "is_ready (emit as s) = is_ready s"
  "is_ready (set_phase b i ph s) = is_ready s"
  by (simp_all add: is_ready_def)

lemma is_ready_fetch_effect [simp]: "is_ready (fetch_effect L p s) = is_ready s"
  by (auto simp: fetch_effect_def is_ready_set_state split: option.splits)

lemma is_ready_setup_effect [simp]: "is_ready (setup_effect env p s) = is_ready s"
proof (cases "mounted s")
  case None
  then show ?thesis by (simp add: setup_effect_def)
next
  case (Some c)
  from setup_effect_keeps[OF Some, of env p] Some show ?thesis
    by (auto simp: is_ready_def)
qed


lemma is_ready_loaded [simp]: "is_ready (setupApp_loaded b cw s) = is_ready s"
  by (auto simp: setupApp_loaded_def split: option.splits)

lemma is_ready_connected [simp]: "is_ready (setupApp_connected b r s) = is_ready s"
  by (auto simp: setupApp_connected_def is_ready_set_state split: option.splits)

lemma is_ready_onerror [simp]: "is_ready (onerror b m s) = is_ready s"
  by (auto simp: onerror_def is_ready_set_state split: option.splits)



lemma is_ready_unmount [simp]: "\<not> is_ready (unmount env s)"
  by (simp add: unmount_def is_ready_def)



section \<open>Sessions\<close>



















section \<open>Claim C2\<close>



lemma no_document_mount:
  "mount sample_lib no_document_env (sample_props tool_widget) init
    = widget_system
        (Some (ready_renderer\<lparr>loading := False, initialized := False, bridgeRef := None,
                               error := Some ''Could not access iframe document''\<rparr>))
        Failed [ReadResource ''ui://tool/widget'', NewBridge 0 0 False]
        [Error ''Could not access iframe document'']"
  by (simp add: machine_defs init_def sample_props_widget sample_env_def no_document_env_def
      truthy_str_def payload_envelope_nonempty ready_renderer_def widget_system_def)









section \<open>Claim C7\<close>

text \<open>
  Claim C7. Whenever the component renders the iframe (it does exactly when the tool's
  resource URI is truthy), its \<^verbatim>\<open>sandbox\<close> attribute is the fixed string
  \<^verbatim>\<open>allow-scripts allow-same-origin\<close> and its \<^verbatim>\<open>allow\<close> attribute is what
  \<^verbatim>\<open>buildAllowAttribute\<close> computes from the tool's declared permissions, whatever the state
  of the component.
\<close>

theorem iframe_security_attributes:
  "map_option (\<lambda>f. (sandbox f, allow f)) (iframe (render L p c))
     = (if truthy_str (getToolUiResourceUri L (tool p))
        then Some (''allow-scripts allow-same-origin'',
                   buildAllowAttribute L (ui_permissions (tool p)))
        else None)"
  by (simp add: render_def Let_def)

text \<open>
  Claim C7, at the widget tool in the Ready state: the iframe carries the two sandbox
  flags and the allow-list of the sample library.
\<close>

theorem iframe_security_attributes_witness:
  "map_option (\<lambda>f. (sandbox f, allow f)) (iframe (render sample_lib (sample_props tool_widget) ready_renderer))
     = Some (''allow-scripts allow-same-origin'', [])"
  using iframe_security_attributes[of sample_lib "sample_props tool_widget" ready_renderer]
  by (simp add: sample_props_widget truthy_str_def) (simp add: sample_lib_def)

section \<open>Claim C10\<close>

lemma find_name_None:
  "find (\<lambda>t. name t = n) ts = None \<longleftrightarrow> n \<notin> name ` set ts"
  by (auto simp: find_None_iff)

text \<open>
  Claim C10. When the effect runs on a tools list in which no tool with UI metadata has
  the selected tool's name, the selection is reset to none and \<^verbatim>\<open>AppsTab\<close> renders no
  \<^verbatim>\<open>AppRenderer\<close>, so React unmounts the one it had: its live bridge is closed. A selected
  tool whose name is still listed stays selected.
\<close>

theorem removed_tool_deselected:
  "(selectedTool st = Some sel \<and> name sel \<notin> name ` set (filter hasUIMetadata tools)
      \<longrightarrow> selectedTool (appsTab_effect tools st) = None
          \<and> appsTab_renderer resourceContentMap cl rd (appsTab_effect tools st) = None
          \<and> (live_bridge s = Some b
                \<longrightarrow> trace (step L (Unmount env) s) = trace s @ [Close b]
                    \<and> mounted (step L (Unmount env) s) = None))
   \<and> (selectedTool st = Some sel \<and> name sel \<in> name ` set (filter hasUIMetadata tools)
      \<longrightarrow> selectedTool (appsTab_effect tools st) = Some sel)
   \<and> appTools (appsTab_effect tools st) = filter hasUIMetadata tools"
proof (intro conjI impI)
  assume a: "selectedTool st = Some sel \<and> name sel \<notin> name ` set (filter hasUIMetadata tools)"
  then show none: "selectedTool (appsTab_effect tools st) = None"
    by (simp add: appsTab_effect_def Let_def find_name_None)
  then show "appsTab_renderer resourceContentMap cl rd (appsTab_effect tools st) = None"
    by (simp add: appsTab_renderer_def)
next
  assume "live_bridge s = Some b"
  then show "trace (step L (Unmount env) s) = trace s @ [Close b]"
    and "mounted (step L (Unmount env) s) = None"
    using unmount_live[of s b env] by simp_all
next
  assume "selectedTool st = Some sel \<and> name sel \<in> name ` set (filter hasUIMetadata tools)"
  then show "selectedTool (appsTab_effect tools st) = Some sel"
    by (simp add: appsTab_effect_def Let_def find_name_None)
next
  show "appTools (appsTab_effect tools st) = filter hasUIMetadata tools"
    by (simp add: appsTab_effect_def Let_def split: option.splits)
qed

text \<open>
  Claim C10, witness: with the widget tool selected and Ready, the tools list is updated
  to one that no longer has it; the selection is reset and unmounting closes bridge 0.
\<close>

theorem removed_tool_deselected_witness:
  "selectedTool (appsTab_effect [tool_plain, tool_widget2]
                   \<lparr>appTools = [tool_widget, tool_widget2], selectedTool = Some tool_widget\<rparr>) = None
   \<and> appsTab_renderer sample_content (Some 0) 0
        (appsTab_effect [tool_plain, tool_widget2]
           \<lparr>appTools = [tool_widget, tool_widget2], selectedTool = Some tool_widget\<rparr>) = None
   \<and> trace (step sample_lib (Unmount sample_env) (run sample_lib init until_ready))
       = ready_trace @ [Close 0]
   \<and> selectedTool (appsTab_effect [tool_widget, tool_widget2]
                   \<lparr>appTools = [tool_widget], selectedTool = Some tool_widget\<rparr>) = Some tool_widget
   \<and> appTools (appsTab_effect [tool_plain, tool_widget2]
                   \<lparr>appTools = [tool_widget, tool_widget2], selectedTool = Some tool_widget\<rparr>)
       = [tool_widget2]"
proof -
  have f: "filter hasUIMetadata [tool_plain, tool_widget2] = [tool_widget2]"
    by (simp add: hasUIMetadata_def truthy_str_def tool_plain_def tool_widget2_def)
  have g: "filter hasUIMetadata [tool_widget, tool_widget2] = [tool_widget, tool_widget2]"
    by (simp add: hasUIMetadata_def truthy_str_def tool_widget_def tool_widget2_def)
  have n: "name tool_widget \<noteq> name tool_widget2"
    by (simp add: tool_widget_def tool_widget2_def)
  have live: "live_bridge (run sample_lib init until_ready) = Some 0"
    by (simp add: until_ready_state ready_live)
  have tr: "trace (run sample_lib init until_ready) = ready_trace"
    by (simp add: until_ready_state)
  note T = removed_tool_deselected[where st = "\<lparr>appTools = [tool_widget, tool_widget2],
        selectedTool = Some tool_widget\<rparr>" and sel = tool_widget
      and tools = "[tool_plain, tool_widget2]" and resourceContentMap = sample_content
      and cl = "Some 0" and rd = 0 and s = "run sample_lib init until_ready" and b = 0
      and L = sample_lib and env = sample_env]
  note K = removed_tool_deselected[where st = "\<lparr>appTools = [tool_widget],
        selectedTool = Some tool_widget\<rparr>" and sel = tool_widget
      and tools = "[tool_widget, tool_widget2]", THEN conjunct2, THEN conjunct1]
  from T K f g n live tr show ?thesis by simp
qed

section \<open>Claim C5\<close>

lemma fetch_effect_no_uri:
  "\<not> truthy_str (getToolUiResourceUri L (tool p)) \<Longrightarrow> fetch_effect L p s = s"
  by (auto simp: fetch_effect_def truthy_str_def split: option.splits)

lemma setup_effect_no_iframe:
  "mounted s = Some c \<Longrightarrow> \<not> iframeRef c \<Longrightarrow> setup_effect env p s = s"
  by (auto simp: setup_effect_def split: option.splits)

lemma mount_no_uri:
  assumes "\<not> truthy_str (getToolUiResourceUri L (tool p))"
  shows "trace (mount L env p s) = trace s" and "sessions (mount L env p s) = sessions s"
    and "next_bridge (mount L env p s) = next_bridge s"
  using assms
  by (cases "mounted s"; simp add: mount_def Let_def fetch_effect_no_uri setup_effect_no_iframe)+

lemma update_no_uri:
  assumes "\<not> truthy_str (getToolUiResourceUri L (tool p))"
  shows "trace (update L env p s) = trace s
          \<or> (\<exists>b. live_bridge s = Some b \<and> trace (update L env p s) = trace s @ [Close b])"
    and "sessions (update L env p s) = sessions s"
    and "next_bridge (update L env p s) = next_bridge s"
proof -
  have "(trace (update L env p s) = trace s
          \<or> (\<exists>b. live_bridge s = Some b \<and> trace (update L env p s) = trace s @ [Close b]))
      \<and> sessions (update L env p s) = sessions s
      \<and> next_bridge (update L env p s) = next_bridge s"
  proof (cases "mounted s")
    case None
    then show ?thesis by (simp add: update_def)
  next
    case (Some c)
    define s1 where "s1 = s\<lparr>mounted := Some (c\<lparr>iframeRef := truthy_str (getToolUiResourceUri L (tool p)),
                                        fetch_deps := (getToolUiResourceUri L (tool p), onReadResource p),
                                        setup_deps := (resourceContent p, mcpClient p)\<rparr>)\<rparr>"
    define s2 where "s2 = (if (resourceContent p, mcpClient p) \<noteq> setup_deps c
                           then setup_cleanup_run env s1 else s1)"
    have "\<exists>c2. mounted s2 = Some c2 \<and> \<not> iframeRef c2"
      using assms by (auto simp: s2_def s1_def setup_cleanup_run_mounted split: option.splits)
    then have se: "setup_effect env p s2 = s2"
      using setup_effect_no_iframe by blast
    define s3 where "s3 = (if (getToolUiResourceUri L (tool p), onReadResource p) \<noteq> fetch_deps c
                           then fetch_effect L p s2 else s2)"
    have "update L env p s
        = (if (resourceContent p, mcpClient p) \<noteq> setup_deps c then setup_effect env p s3 else s3)"
      using Some by (simp add: update_def Let_def s1_def s2_def s3_def)
    moreover have "s3 = s2"
      using assms by (simp add: s3_def fetch_effect_no_uri)
    ultimately have u: "update L env p s = s2"
      using se by simp
    have live1: "live_bridge s1 = live_bridge s"
      using Some by (simp add: live_bridge_def s1_def)
    have "trace s2 = trace s
        \<or> trace s2 = trace s @ (case live_bridge s of None \<Rightarrow> [] | Some b \<Rightarrow> [Close b])"
      by (simp add: s2_def setup_cleanup_run_trace live1) (simp add: s1_def)
    then have "trace s2 = trace s \<or> (\<exists>b. live_bridge s = Some b \<and> trace s2 = trace s @ [Close b])"
      by (cases "live_bridge s") auto
    moreover have "sessions s2 = sessions s" "next_bridge s2 = next_bridge s"
      by (simp_all add: s2_def s1_def)
    ultimately show ?thesis by (simp add: u)
  qed
  then show "trace (update L env p s) = trace s
          \<or> (\<exists>b. live_bridge s = Some b \<and> trace (update L env p s) = trace s @ [Close b])"
    and "sessions (update L env p s) = sessions s"
    and "next_bridge (update L env p s) = next_bridge s"
    by blast+
qed

text \<open>Executions in which every render is of a tool without a resource URI.\<close>

lemma run_without_resourceUri:
  assumes "\<forall>e\<in>set es. without_resourceUri L e"
  shows "trace (run L init es) = [] \<and> sessions (run L init es) = (\<lambda>b. None)"
  using assms
proof (induction es rule: rev_induct)
  case Nil
  then show ?case by (simp add: run_def init_def)
next
  case (snoc e es)
  define s where "s = run L init es"
  from snoc have tr: "trace s = []" and se: "sessions s = (\<lambda>b. None)"
    by (simp_all add: s_def)
  have "bridge_inv s" unfolding s_def by (rule bridge_inv_run)
  with tr have live: "live_bridge s = None"
    by (simp add: bridge_inv_def)
  from snoc.prems have e: "without_resourceUri L e" by simp
  have "trace (step L e s) = [] \<and> sessions (step L e s) = (\<lambda>b. None)"
  proof (cases e)
    case (Mount p env)
    with e tr se show ?thesis by (simp add: mount_no_uri)
  next
    case (Update p env)
    with e have "\<not> truthy_str (getToolUiResourceUri L (tool p))" by simp
    from update_no_uri[OF this, of env s] live tr se Update show ?thesis by auto
  next
    case (Unmount env)
    with tr se live show ?thesis by (simp add: unmount_def setup_cleanup_run_trace)
  next
    case (Loaded b cw)
    with tr se show ?thesis by (simp add: setupApp_loaded_def)
  next
    case (ConnectSettled b r)
    with tr se show ?thesis by (simp add: setupApp_connected_def)
  next
    case (Initialized b)
    with tr se show ?thesis by simp
  next
    case (GuestError b m)
    with tr se show ?thesis by simp
  qed
  then show ?case by (simp add: run_snoc s_def)
qed

text \<open>
  Claim C5. For a tool whose resource URI is absent (or empty), the component renders the
  configuration error and nothing else, in every state. A mount or a render with such a
  tool reads no resource, constructs no bridge, writes no document and connects nothing:
  it creates no session, and the only action it can add is the close of the bridge that
  was live. An execution all of whose renders are of such tools performs no action at
  all.
\<close>

theorem no_resourceUri_no_setup:
  "(\<not> truthy_str (getToolUiResourceUri L (tool p)) \<longrightarrow>
      render L p c = \<lparr>no_resource_alert = True, loading_alert = False, error_alert = None,
                       iframe = None, connected_note = None\<rparr>
    \<and> trace (step L (Mount p env) s) = trace s
    \<and> sessions (step L (Mount p env) s) = sessions s
    \<and> next_bridge (step L (Mount p env) s) = next_bridge s
    \<and> (trace (step L (Update p env) s) = trace s
        \<or> (\<exists>b. live_bridge s = Some b \<and> trace (step L (Update p env) s) = trace s @ [Close b]))
    \<and> sessions (step L (Update p env) s) = sessions s
    \<and> next_bridge (step L (Update p env) s) = next_bridge s)
   \<and> ((\<forall>e\<in>set es. without_resourceUri L e) \<longrightarrow>
        trace (run L init es) = [] \<and> sessions (run L init es) = (\<lambda>b. None))"
proof (intro conjI impI)
  assume a: "\<not> truthy_str (getToolUiResourceUri L (tool p))"
  then show "render L p c = \<lparr>no_resource_alert = True, loading_alert = False, error_alert = None,
                       iframe = None, connected_note = None\<rparr>"
    by (simp add: render_def Let_def)
  from a show "trace (step L (Mount p env) s) = trace s"
    and "sessions (step L (Mount p env) s) = sessions s"
    and "next_bridge (step L (Mount p env) s) = next_bridge s"
    by (simp_all add: mount_no_uri)
  from a show "trace (step L (Update p env) s) = trace s
        \<or> (\<exists>b. live_bridge s = Some b \<and> trace (step L (Update p env) s) = trace s @ [Close b])"
    and "sessions (step L (Update p env) s) = sessions s"
    and "next_bridge (step L (Update p env) s) = next_bridge s"
    using update_no_uri[OF a, of env s] by simp_all
next
  assume "\<forall>e\<in>set es. without_resourceUri L e"
  then show "trace (run L init es) = []" and "sessions (run L init es) = (\<lambda>b. None)"
    using run_without_resourceUri by blast+
qed

text \<open>
  Claim C5, witness: the tool \<open>tool_plain\<close> declares no resource URI. Mounted, rendered
  again and fed stray events, it performs no action; selected while the widget tool is
  Ready, it only closes the widget's bridge.
\<close>

theorem no_resourceUri_no_setup_witness:
  "no_resource_alert (render sample_lib (sample_props tool_plain) ready_renderer)
   \<and> iframe (render sample_lib (sample_props tool_plain) ready_renderer) = None
   \<and> trace (run sample_lib init
        [Mount (sample_props tool_plain) sample_env, Update (sample_props tool_plain) sample_env,
         Loaded 0 True, Initialized 0]) = []
   \<and> trace (step sample_lib (Update (sample_props tool_plain) sample_env)
              (run sample_lib init until_ready)) = ready_trace @ [Close 0]
   \<and> next_bridge (step sample_lib (Update (sample_props tool_plain) sample_env)
              (run sample_lib init until_ready)) = 1"
proof -
  have nu: "\<not> truthy_str (getToolUiResourceUri sample_lib (tool (sample_props tool_plain)))"
    by (simp add: sample_props_plain truthy_str_def)
  note T = no_resourceUri_no_setup[where L = sample_lib and p = "sample_props tool_plain"
      and c = ready_renderer and env = sample_env and s = "run sample_lib init until_ready"
      and es = "[Mount (sample_props tool_plain) sample_env,
                 Update (sample_props tool_plain) sample_env, Loaded 0 True, Initialized 0]"]
  have 1: "no_resource_alert (render sample_lib (sample_props tool_plain) ready_renderer)"
    and 2: "iframe (render sample_lib (sample_props tool_plain) ready_renderer) = None"
    using T nu by simp_all
  have 3: "trace (run sample_lib init
        [Mount (sample_props tool_plain) sample_env, Update (sample_props tool_plain) sample_env,
         Loaded 0 True, Initialized 0]) = []"
    using T nu by simp
  have changed: "update sample_lib sample_env (sample_props tool_plain)
         (widget_system (Some ready_renderer) Connected ready_trace [])
       = widget_system
           (Some (ready_renderer\<lparr>iframeRef := False, fetch_deps := (None, 0),
                                  setup_deps := ([], Some 0), bridgeRef := None,
                                  initialized := False, setup_cleanup := None\<rparr>))
           Connected (ready_trace @ [Close 0]) []"
    by (simp add: update_def Let_def sample_props_plain truthy_str_def ready_renderer_def
        payload_envelope_nonempty[symmetric] setup_cleanup_run_def set_state_def emit_def
        fetch_effect_def
        setup_effect_def sample_env_def widget_system_def)
  have 4: "trace (step sample_lib (Update (sample_props tool_plain) sample_env)
              (run sample_lib init until_ready)) = ready_trace @ [Close 0]"
    by (simp add: until_ready_state changed)
  have 5: "next_bridge (step sample_lib (Update (sample_props tool_plain) sample_env)
              (run sample_lib init until_ready)) = 1"
    using T nu by (simp add: until_ready_state)
  from 1 2 3 4 5 show ?thesis by simp
qed

section \<open>Claim C4\<close>







section \<open>Claim C6\<close>

text \<open>
  Every way in which \<^verbatim>\<open>setupApp\<close> can fail ends in its \<^verbatim>\<open>catch\<close>: the error cell of the
  calling instance becomes the message of the thrown \<^verbatim>\<open>Error\<close> (or "Failed to set up
  app" for any other thrown value) and \<^verbatim>\<open>loading\<close> becomes false. The function has no
  other way out: \<open>setupApp\<close> and its two resumptions return a state in every case.
\<close>

lemma setup_failures_caught:
  assumes "mounted s = Some c"
  shows "new_AppBridge env = Some err \<Longrightarrow>
           mounted (snd (setupApp env (inst_id c) cl content s))
             = Some (c\<lparr>error := Some (case err of Error m \<Rightarrow> m | NonError \<Rightarrow> ''Failed to set up app''),
                       loading := False\<rparr>)"
    and "new_AppBridge env = None \<Longrightarrow> \<not> iframeDoc env \<Longrightarrow>
           mounted (snd (setupApp env (inst_id c) cl content s))
             = Some (c\<lparr>error := Some ''Could not access iframe document'', loading := False\<rparr>)"
    and "new_AppBridge env = None \<Longrightarrow> iframeDoc env \<Longrightarrow> doc_write env = Some err \<Longrightarrow>
           mounted (snd (setupApp env (inst_id c) cl content s))
             = Some (c\<lparr>error := Some (case err of Error m \<Rightarrow> m | NonError \<Rightarrow> ''Failed to set up app''),
                       loading := False\<rparr>)"
    and "sessions s b = Some ss \<Longrightarrow> phase ss = AwaitLoad \<Longrightarrow> owner ss = inst_id c \<Longrightarrow>
           mounted (setupApp_loaded b False s)
             = Some (c\<lparr>error := Some ''Iframe contentWindow not available'', loading := False\<rparr>)"
    and "sessions s b = Some ss \<Longrightarrow> phase ss = AwaitConnect \<Longrightarrow> owner ss = inst_id c \<Longrightarrow>
           mounted (setupApp_connected b (Some err) s)
             = Some (c\<lparr>error := Some (case err of Error m \<Rightarrow> m | NonError \<Rightarrow> ''Failed to set up app''),
                       loading := False\<rparr>)"
  using assms
  by (simp_all add: setupApp_def Let_def setupApp_loaded_def setupApp_connected_def
      catch_setup_mounted)

lemma connecting_state:
  "run sample_lib init [Mount (sample_props tool_widget) sample_env, Loaded 0 True]
     = widget_system (Some (ready_renderer\<lparr>loading := True, initialized := False, bridgeRef := None\<rparr>))
         AwaitConnect ready_trace []"
  by (simp add: run_def widget_mount widget_loaded)

text \<open>
  Claim C6 at a failing input: \<^verbatim>\<open>bridge.connect\<close> rejects with an \<^verbatim>\<open>Error\<close> whose message
  is empty. The \<^verbatim>\<open>catch\<close> stores the empty message: the error cell holds the empty
  string, which is falsy, so no banner is rendered, the loading alert is gone and the
  iframe is shown. The \<^verbatim>\<open>onerror\<close> handler, given the same empty message, falls back to
  "An error occurred".
\<close>

theorem setup_failure_empty_message:
  "mounted (run sample_lib init
             [Mount (sample_props tool_widget) sample_env, Loaded 0 True,
              ConnectSettled 0 (Some (Error []))])
     = Some (ready_renderer\<lparr>loading := False, initialized := False, bridgeRef := None,
                             error := Some []\<rparr>)
   \<and> render sample_lib (sample_props tool_widget)
        (ready_renderer\<lparr>loading := False, initialized := False, bridgeRef := None,
                         error := Some []\<rparr>)
     = \<lparr>no_resource_alert = False, loading_alert = False, error_alert = None,
        iframe = Some \<lparr>sandbox = ''allow-scripts allow-same-origin'', allow = [],
                       display = ''block'', title = ''MCP App: show_widget''\<rparr>,
        connected_note = None\<rparr>
   \<and> mounted (step sample_lib (GuestError 0 []) (run sample_lib init until_ready))
     = Some (ready_renderer\<lparr>error := Some ''An error occurred''\<rparr>)"
proof -
  have "run sample_lib init
             [Mount (sample_props tool_widget) sample_env, Loaded 0 True,
              ConnectSettled 0 (Some (Error []))]
      = setupApp_connected 0 (Some (Error []))
          (run sample_lib init [Mount (sample_props tool_widget) sample_env, Loaded 0 True])"
    by (simp add: run_def)
  then have 1: "mounted (run sample_lib init
             [Mount (sample_props tool_widget) sample_env, Loaded 0 True,
              ConnectSettled 0 (Some (Error []))])
     = Some (ready_renderer\<lparr>loading := False, initialized := False, bridgeRef := None,
                             error := Some []\<rparr>)"
    by (simp add: connecting_state)
       (simp add: setupApp_connected_def catch_setup_mounted ready_renderer_def)
  have 2: "render sample_lib (sample_props tool_widget)
        (ready_renderer\<lparr>loading := False, initialized := False, bridgeRef := None,
                         error := Some []\<rparr>)
     = \<lparr>no_resource_alert = False, loading_alert = False, error_alert = None,
        iframe = Some \<lparr>sandbox = ''allow-scripts allow-same-origin'', allow = [],
                       display = ''block'', title = ''MCP App: show_widget''\<rparr>,
        connected_note = None\<rparr>"
    by (simp add: render_def Let_def sample_props_widget truthy_str_def ready_renderer_def)
       (simp add: sample_lib_def tool_widget_def)
  have 3: "mounted (step sample_lib (GuestError 0 []) (run sample_lib init until_ready))
     = Some (ready_renderer\<lparr>error := Some ''An error occurred''\<rparr>)"
    by (simp add: until_ready_state onerror_def set_state_mounted)
       (simp add: ready_renderer_def)
  from 1 2 3 show ?thesis by simp
qed

end
